theory Spec2Isabelle
  imports Main "HOL-Library.Char_ord" "HOL-Library.List_Lexorder" "HOL-Library.Multiset"
begin

section \<open>Python values as decoded from JSON\<close>

text \<open>
  Everything the application reads comes out of \<^verbatim>\<open>response.json()\<close> or out of a form
  field, so the values of the model are the decoded JSON values.  JSON numbers are
  modelled as integers; a Python \<^verbatim>\<open>str\<close> is a \<^typ>\<open>string\<close> whose characters are the code
  points below 256, compared by code point as Python compares them.  A \<^verbatim>\<open>dict\<close> is an
  association list read with \<^const>\<open>map_of\<close>.
\<close>

datatype jval =
    JNull
  | JBool bool
  | JInt int
  | JStr string
  | JArr "jval list"
  | JObj "(string \<times> jval) list"

datatype py_error = AttributeError | TypeError | KeyError | IndexError

text \<open>Truth value testing, as used by \<^verbatim>\<open>if x:\<close> and by \<^verbatim>\<open>x or y\<close>, which is \<open>x\<close> when
  \<open>x\<close> is truthy and \<open>y\<close> otherwise.\<close>

fun py_truthy :: "jval \<Rightarrow> bool" where
  "py_truthy JNull = False"
| "py_truthy (JBool b) = b"
| "py_truthy (JInt n) = (n \<noteq> 0)"
| "py_truthy (JStr s) = (s \<noteq> [])"
| "py_truthy (JArr xs) = (xs \<noteq> [])"
| "py_truthy (JObj kvs) = (kvs \<noteq> [])"

text \<open>\<^verbatim>\<open>d.get(k, default)\<close>: only a dict has the method; \<^verbatim>\<open>d.get(k)\<close> is the call with
  default \<^const>\<open>JNull\<close>.\<close>

fun py_get :: "jval \<Rightarrow> string \<Rightarrow> jval \<Rightarrow> py_error + jval" where
  "py_get (JObj kvs) k d = Inr (case map_of kvs k of Some v \<Rightarrow> v | None \<Rightarrow> d)"
| "py_get _ k d = Inl AttributeError"

text \<open>\<^verbatim>\<open>d[k]\<close> with a string key.\<close>

fun py_item :: "jval \<Rightarrow> string \<Rightarrow> py_error + jval" where
  "py_item (JObj kvs) k = (case map_of kvs k of Some v \<Rightarrow> Inr v | None \<Rightarrow> Inl KeyError)"
| "py_item _ k = Inl TypeError"

text \<open>Python's \<^verbatim>\<open>==\<close> on decoded JSON: \<^verbatim>\<open>True == 1\<close>, lists by elements, dicts by keys.\<close>

fun num_of :: "jval \<Rightarrow> int option" where
  "num_of (JInt n) = Some n"
| "num_of (JBool b) = Some (if b then 1 else 0)"
| "num_of _ = None"

function py_eq :: "jval \<Rightarrow> jval \<Rightarrow> bool"
  and py_eq_list :: "jval list \<Rightarrow> jval list \<Rightarrow> bool"
  and dict_sub :: "(string \<times> jval) list \<Rightarrow> (string \<times> jval) list \<Rightarrow> bool"
  and dict_has :: "string \<Rightarrow> jval \<Rightarrow> (string \<times> jval) list \<Rightarrow> bool"
where
  "py_eq a b =
     (case (a, b) of
        (JNull, JNull) \<Rightarrow> True
      | (JStr s, JStr t) \<Rightarrow> s = t
      | (JArr xs, JArr ys) \<Rightarrow> py_eq_list xs ys
      | (JObj xs, JObj ys) \<Rightarrow> dict_sub xs ys \<and> dict_sub ys xs
      | _ \<Rightarrow> (case (num_of a, num_of b) of (Some m, Some n) \<Rightarrow> m = n | _ \<Rightarrow> False))"
| "py_eq_list [] [] = True"
| "py_eq_list (x # xs) [] = False"
| "py_eq_list [] (y # ys) = False"
| "py_eq_list (x # xs) (y # ys) = (py_eq x y \<and> py_eq_list xs ys)"
| "dict_sub [] ys = True"
| "dict_sub ((k, v) # xs) ys = (dict_has k v ys \<and> dict_sub xs ys)"
| "dict_has k v [] = False"
| "dict_has k v ((k', w) # ys) = (if k = k' then py_eq v w else dict_has k v ys)"
  by pat_completeness auto
termination
  by (relation "measure (\<lambda>x. case x of
        Inl (Inl (a, b)) \<Rightarrow> size a + size b
      | Inl (Inr (xs, ys)) \<Rightarrow> size_list size xs + size_list size ys
      | Inr (Inl (xs, ys)) \<Rightarrow>
          size_list (size_prod (\<lambda>_. 0) size) xs + size_list (size_prod (\<lambda>_. 0) size) ys
      | Inr (Inr (k, v, ys)) \<Rightarrow> size v + size_list (size_prod (\<lambda>_. 0) size) ys)")
     auto

declare py_eq.simps(1) [simp del]

text \<open>Python's \<^verbatim>\<open><\<close>: strings by code point, numbers by value, lists by their first
  differing element; every other pairing raises \<^verbatim>\<open>TypeError\<close> (also \<^verbatim>\<open>None < None\<close> and
  \<^verbatim>\<open>{} < {}\<close>).\<close>

fun py_lt :: "jval \<Rightarrow> jval \<Rightarrow> py_error + bool"
  and py_lt_list :: "jval list \<Rightarrow> jval list \<Rightarrow> py_error + bool"
where
  "py_lt (JStr s) (JStr t) = Inr (s < t)"
| "py_lt (JArr xs) (JArr ys) = py_lt_list xs ys"
| "py_lt a b =
     (case (num_of a, num_of b) of
        (Some m, Some n) \<Rightarrow> Inr (m < n)
      | _ \<Rightarrow> Inl TypeError)"
| "py_lt_list [] ys = Inr (ys \<noteq> [])"
| "py_lt_list (x # xs) [] = Inr False"
| "py_lt_list (x # xs) (y # ys) = (if py_eq x y then py_lt_list xs ys else py_lt x y)"

section \<open>String methods\<close>

text \<open>\<^verbatim>\<open>s.lower()\<close> on the code points below 256.\<close>

definition lower_char :: "char \<Rightarrow> char" where
  "lower_char c =
     (let n = (of_char c :: nat)
      in if (65 \<le> n \<and> n \<le> 90) \<or> (192 \<le> n \<and> n \<le> 222 \<and> n \<noteq> 215)
         then char_of (n + 32) else c)"

definition py_lower :: "string \<Rightarrow> string" where
  "py_lower s = map lower_char s"

definition py_startswith :: "string \<Rightarrow> string \<Rightarrow> bool" where
  "py_startswith s p = (take (length p) s = p)"

text \<open>\<^verbatim>\<open>sub in s\<close> for strings.\<close>

fun py_in :: "string \<Rightarrow> string \<Rightarrow> bool" where
  "py_in sub [] = (sub = [])"
| "py_in sub (c # cs) = (py_startswith (c # cs) sub \<or> py_in sub cs)"

text \<open>\<^verbatim>\<open>s.split(sep)\<close> for a one-character separator: never an empty list.\<close>

fun py_split :: "char \<Rightarrow> string \<Rightarrow> string list" where
  "py_split sep [] = [[]]"
| "py_split sep (c # cs) =
     (if c = sep then [] # py_split sep cs
      else (case py_split sep cs of
              [] \<Rightarrow> [[c]]
            | p # ps \<Rightarrow> (c # p) # ps))"

fun py_join :: "string \<Rightarrow> string list \<Rightarrow> string" where
  "py_join sep [] = []"
| "py_join sep [p] = p"
| "py_join sep (p # q # ps) = p @ sep @ py_join sep (q # ps)"

text \<open>\<^verbatim>\<open>s.replace(old, new)\<close> for a non-empty \<^verbatim>\<open>old\<close>: leftmost occurrences, not
  overlapping.\<close>

function py_replace :: "string \<Rightarrow> string \<Rightarrow> string \<Rightarrow> string" where
  "py_replace old new [] = []"
| "py_replace old new (c # cs) =
     (if old \<noteq> [] \<and> py_startswith (c # cs) old
      then new @ py_replace old new (drop (length old) (c # cs))
      else c # py_replace old new cs)"
  by pat_completeness auto
termination
  by (relation "measure (\<lambda>(old, new, s). length s)") auto

text \<open>\<^verbatim>\<open>xs[0]\<close> and \<^verbatim>\<open>xs[-1]\<close>.\<close>

fun py_first :: "'a list \<Rightarrow> py_error + 'a" where
  "py_first [] = Inl IndexError"
| "py_first (x # xs) = Inr x"

fun py_last :: "'a list \<Rightarrow> py_error + 'a" where
  "py_last [] = Inl IndexError"
| "py_last (x # xs) = Inr (last (x # xs))"

text \<open>The receiver of a string method: any other value has no such attribute.\<close>

fun str_of :: "jval \<Rightarrow> py_error + string" where
  "str_of (JStr s) = Inr s"
| "str_of _ = Inl AttributeError"

section \<open>Attachment file names (\<^verbatim>\<open>show_ticket_details\<close>, \<^verbatim>\<open>admin_panel\<close>)\<close>

definition known_extensions :: "string list" where
  "known_extensions =
     [''.png'', ''.jpg'', ''.jpeg'', ''.gif'', ''.webp'', ''.bmp'', ''.svg'',
      ''.pdf'', ''.txt'', ''.doc'', ''.xlsx'']"

definition image_extensions :: "string list" where
  "image_extensions = [''.png'', ''.jpg'', ''.jpeg'', ''.gif'', ''.webp'', ''.bmp'', ''.svg'']"

definition admin_image_extensions :: "string list" where
  "admin_image_extensions = [''.png'', ''.jpg'', ''.jpeg'', ''.gif'', ''.webp'', ''.bmp'']"

text \<open>The test of the loop over the parts:
  \<^verbatim>\<open>'.' in part and any(ext in part.lower() for ext in [...])\<close>.\<close>

definition has_extension :: "string \<Rightarrow> bool" where
  "has_extension part =
     (py_in ''.'' part \<and> list_ex (\<lambda>ext. py_in ext (py_lower part)) known_extensions)"

text \<open>\<^verbatim>\<open>for i, part in enumerate(parts): if ...: file_name = '_'.join(parts[i:]); break\<close>,
  started at index \<open>i\<close>; \<^const>\<open>None\<close> is the \<^verbatim>\<open>else\<close> of the \<^verbatim>\<open>for\<close>.\<close>

function scan_parts :: "string list \<Rightarrow> nat \<Rightarrow> string option" where
  "scan_parts parts i =
     (if i < length parts
      then (if has_extension (parts ! i) then Some (py_join ''_'' (drop i parts))
            else scan_parts parts (Suc i))
      else None)"
  by pat_completeness auto
termination
  by (relation "measure (\<lambda>(parts, i). length parts - i)") auto

declare scan_parts.simps [simp del]

text \<open>\<^verbatim>\<open>file_name.replace('%20', ' ').replace('%2B', '+')\<close>.\<close>

definition clean_up :: "string \<Rightarrow> string" where
  "clean_up file_name = py_replace ''%2B'' ''+'' (py_replace ''%20'' '' '' file_name)"

text \<open>The body shared by the three copies of the parser, for a \<^verbatim>\<open>str\<close>: cut the query,
  take the last path segment, look for the original file name behind the timestamp,
  undo \<^verbatim>\<open>%20\<close> and \<^verbatim>\<open>%2B\<close>.\<close>

definition file_name_of_url :: "string \<Rightarrow> py_error + string" where
  "file_name_of_url url =
     (case py_first (py_split (CHR ''?'') url) of
        Inl e \<Rightarrow> Inl e
      | Inr url_without_params \<Rightarrow>
     (case py_last (py_split (CHR ''/'') url_without_params) of
        Inl e \<Rightarrow> Inl e
      | Inr path_part \<Rightarrow>
          (let file_name =
             (if py_in ''_'' path_part \<and> 3 \<le> length (py_split (CHR ''_'') path_part)
              then (let parts = py_split (CHR ''_'') path_part
                    in case scan_parts parts 0 of
                         Some f \<Rightarrow> f
                       | None \<Rightarrow> (if parts \<noteq> [] then last parts else ''attachment''))
              else path_part)
           in Inr (clean_up file_name))))"

text \<open>Lines 442 to 470: the ticket's own attachment, with the \<^verbatim>\<open>startswith('http')\<close> test
  and the \<^verbatim>\<open>try\<close>/\<^verbatim>\<open>except\<close> around it.\<close>

definition ticket_file_name_try :: "jval \<Rightarrow> py_error + string" where
  "ticket_file_name_try attachment_url =
     (case str_of attachment_url of
        Inl e \<Rightarrow> Inl e
      | Inr s \<Rightarrow> if py_startswith s ''http'' then file_name_of_url s else Inr ''attachment'')"

definition ticket_file_name :: "jval \<Rightarrow> string" where
  "ticket_file_name attachment_url =
     (case ticket_file_name_try attachment_url of Inr f \<Rightarrow> f | Inl e \<Rightarrow> ''attachment'')"

text \<open>Lines 537 to 560 and 713 to 736: a reply's attachment, without the \<^verbatim>\<open>http\<close> test.\<close>

definition reply_file_name_try :: "jval \<Rightarrow> py_error + string" where
  "reply_file_name_try reply_attachment =
     (case str_of reply_attachment of Inl e \<Rightarrow> Inl e | Inr s \<Rightarrow> file_name_of_url s)"

definition reply_file_name :: "jval \<Rightarrow> string" where
  "reply_file_name reply_attachment =
     (case reply_file_name_try reply_attachment of Inr f \<Rightarrow> f | Inl e \<Rightarrow> ''attachment'')"

text \<open>\<^verbatim>\<open>any(ext in attachment_url.lower() for ext in [...])\<close>, which stands outside the
  \<^verbatim>\<open>try\<close>.\<close>

definition is_image_url :: "string list \<Rightarrow> jval \<Rightarrow> py_error + bool" where
  "is_image_url exts attachment_url =
     (case str_of attachment_url of
        Inl e \<Rightarrow> Inl e
      | Inr s \<Rightarrow> Inr (list_ex (\<lambda>ext. py_in ext (py_lower s)) exts))"

datatype kind = Image | Document

text \<open>File name and kind of a ticket's attachment (lines 442 to 493).\<close>

definition ticket_attachment :: "jval \<Rightarrow> py_error + string \<times> kind" where
  "ticket_attachment attachment_url =
     (let file_name = ticket_file_name attachment_url
      in case is_image_url image_extensions attachment_url of
           Inl e \<Rightarrow> Inl e
         | Inr img \<Rightarrow> Inr (file_name, if img then Image else Document))"

definition reply_attachment :: "string list \<Rightarrow> jval \<Rightarrow> py_error + string \<times> kind" where
  "reply_attachment exts attachment_url =
     (let file_name = reply_file_name attachment_url
      in case is_image_url exts attachment_url of
           Inl e \<Rightarrow> Inl e
         | Inr img \<Rightarrow> Inr (file_name, if img then Image else Document))"

section \<open>What the page shows and what it sends\<close>

text \<open>
  An f-string is kept as its pieces: literal text, a formatted value, a formatted
  exception.  The emoji of the source's literals are left out.  The page is the list of
  events in the order in which the script produces them; a request to the API is an
  event too, so that the list also tells which remote calls were attempted.  The
  \<^verbatim>\<open><br>\<close> separators and the column layout are not part of the model.
\<close>

datatype piece = Lit string | Fmt jval | Exc py_error

type_synonym ftext = "piece list"

datatype request =
    GetTickets
  | PostTickets jval
  | GetTicket jval
  | PostAttachment jval string string
  | PostAiReply jval string "(jval \<times> jval) option"
  | PostSendEmail jval string ftext ftext
  | PostReplies jval jval
  | PatchStatus jval jval

datatype box = UserMessage | AssistantMessage | AdminMessage

datatype event =
    Call request
  | StError ftext
  | StSuccess ftext
  | StInfo ftext
  | StBalloons
  | ChatMessage box "jval option" jval
  | Attachment kind string jval

section \<open>The conversation of a ticket (\<^verbatim>\<open>show_ticket_details\<close>, lines 496 to 577)\<close>

text \<open>\<^verbatim>\<open>len(x)\<close> and the elements a \<^verbatim>\<open>for\<close> loop or \<^verbatim>\<open>sorted\<close> sees.\<close>

fun py_len :: "jval \<Rightarrow> py_error + nat" where
  "py_len (JArr xs) = Inr (length xs)"
| "py_len (JStr s) = Inr (length s)"
| "py_len (JObj kvs) = Inr (length kvs)"
| "py_len _ = Inl TypeError"

fun py_iter :: "jval \<Rightarrow> py_error + jval list" where
  "py_iter (JArr xs) = Inr xs"
| "py_iter (JStr s) = Inr (map (\<lambda>c. JStr [c]) s)"
| "py_iter (JObj kvs) = Inr (map (\<lambda>kv. JStr (fst kv)) kvs)"
| "py_iter _ = Inl TypeError"

text \<open>The key of the sort: \<^verbatim>\<open>lambda x: x.get('created_at', x.get('timestamp', ''))\<close>.\<close>

definition sort_key_of :: "jval \<Rightarrow> py_error + jval" where
  "sort_key_of x =
     (case py_get x ''timestamp'' (JStr []) of
        Inl e \<Rightarrow> Inl e
      | Inr d \<Rightarrow> py_get x ''created_at'' d)"

text \<open>
  \<^verbatim>\<open>sorted(xs, key=f)\<close> computes the key of every element first, then sorts the pairs by
  comparing keys with \<^verbatim>\<open><\<close> only, keeping elements with equal keys in their order
  (it is stable); an exception of the key function or of a comparison leaves it.
  The sort is written as an insertion sort: an element goes behind every element that
  is not greater than it.
\<close>

fun decorate :: "jval list \<Rightarrow> py_error + (jval \<times> jval) list" where
  "decorate [] = Inr []"
| "decorate (x # xs) =
     (case sort_key_of x of
        Inl e \<Rightarrow> Inl e
      | Inr k \<Rightarrow> (case decorate xs of Inl e \<Rightarrow> Inl e | Inr kxs \<Rightarrow> Inr ((k, x) # kxs)))"

fun insert_py :: "jval \<times> jval \<Rightarrow> (jval \<times> jval) list \<Rightarrow> py_error + (jval \<times> jval) list" where
  "insert_py x [] = Inr [x]"
| "insert_py x (y # ys) =
     (case py_lt (fst x) (fst y) of
        Inl e \<Rightarrow> Inl e
      | Inr True \<Rightarrow> Inr (x # y # ys)
      | Inr False \<Rightarrow> (case insert_py x ys of Inl e \<Rightarrow> Inl e | Inr zs \<Rightarrow> Inr (y # zs)))"

fun sort_py :: "(jval \<times> jval) list \<Rightarrow> (jval \<times> jval) list \<Rightarrow> py_error + (jval \<times> jval) list" where
  "sort_py acc [] = Inr acc"
| "sort_py acc (x # xs) =
     (case insert_py x acc of Inl e \<Rightarrow> Inl e | Inr acc' \<Rightarrow> sort_py acc' xs)"

definition py_sorted :: "jval \<Rightarrow> py_error + jval list" where
  "py_sorted replies =
     (case py_iter replies of
        Inl e \<Rightarrow> Inl e
      | Inr xs \<Rightarrow>
     (case decorate xs of
        Inl e \<Rightarrow> Inl e
      | Inr kxs \<Rightarrow>
     (case sort_py [] kxs of
        Inl e \<Rightarrow> Inl e
      | Inr sorted_kxs \<Rightarrow> Inr (map snd sorted_kxs))))"

text \<open>Lines 505 to 508: \<^verbatim>\<open>try: sorted_replies = sorted(...)\<close>,
  \<^verbatim>\<open>except: sorted_replies = replies\<close>.\<close>

definition sorted_replies :: "jval \<Rightarrow> jval" where
  "sorted_replies replies =
     (case py_sorted replies of Inr ys \<Rightarrow> JArr ys | Inl e \<Rightarrow> replies)"

text \<open>Lines 512 to 514, the three resolved fields of a reply.\<close>

definition reply_role :: "jval \<Rightarrow> py_error + jval" where
  "reply_role reply =
     (case py_get reply ''role'' JNull of
        Inl e \<Rightarrow> Inl e
      | Inr a \<Rightarrow> if py_truthy a then Inr a else py_get reply ''reply_type'' (JStr ''user''))"

definition reply_text :: "jval \<Rightarrow> py_error + jval" where
  "reply_text reply =
     (case py_get reply ''text'' JNull of
        Inl e \<Rightarrow> Inl e
      | Inr a \<Rightarrow> if py_truthy a then Inr a else py_get reply ''content'' (JStr []))"

definition reply_timestamp :: "jval \<Rightarrow> py_error + jval" where
  "reply_timestamp reply =
     (case py_get reply ''created_at'' JNull of
        Inl e \<Rightarrow> Inl e
      | Inr a \<Rightarrow> if py_truthy a then Inr a else py_get reply ''timestamp'' (JStr []))"

text \<open>Lines 517 to 522: \<^verbatim>\<open>timestamp[:16]\<close> inside its own \<^verbatim>\<open>try\<close>; \<^const>\<open>None\<close> is the empty
  \<^verbatim>\<open>time_str\<close>, \<open>Some v\<close> the bullet followed by the slice \<open>v\<close>.\<close>

fun py_slice16 :: "jval \<Rightarrow> py_error + jval" where
  "py_slice16 (JStr s) = Inr (JStr (take 16 s))"
| "py_slice16 (JArr xs) = Inr (JArr (take 16 xs))"
| "py_slice16 _ = Inl TypeError"

definition time_str :: "jval \<Rightarrow> jval option" where
  "time_str timestamp =
     (if py_truthy timestamp
      then (case py_slice16 timestamp of Inr v \<Rightarrow> Some v | Inl e \<Rightarrow> None)
      else None)"

text \<open>Lines 524 to 529: the \<^verbatim>\<open>if\<close>/\<^verbatim>\<open>elif\<close> chain over the role, which has no \<^verbatim>\<open>else\<close>.\<close>

definition role_message :: "jval \<Rightarrow> jval option \<Rightarrow> jval \<Rightarrow> event list" where
  "role_message role ts txt =
     (if py_eq role (JStr ''user'') then [ChatMessage UserMessage ts txt]
      else if py_eq role (JStr ''ai'') then [ChatMessage AssistantMessage ts txt]
      else if py_eq role (JStr ''admin'') then [ChatMessage AdminMessage ts txt]
      else [])"

text \<open>Lines 532 to 572: the attachment of a reply.\<close>

definition reply_attachment_view :: "string list \<Rightarrow> jval \<Rightarrow> py_error + event list" where
  "reply_attachment_view exts reply =
     (case py_get reply ''attachment_url'' JNull of
        Inl e \<Rightarrow> Inl e
      | Inr u \<Rightarrow>
          if py_truthy u
          then (case reply_attachment exts u of
                  Inl e \<Rightarrow> Inl e
                | Inr (file_name, k) \<Rightarrow> Inr [Attachment k file_name u])
          else Inr [])"

text \<open>One round of the loop of line 510.\<close>

definition render_reply :: "jval \<Rightarrow> py_error + event list" where
  "render_reply reply =
     (case reply_role reply of Inl e \<Rightarrow> Inl e | Inr role \<Rightarrow>
     (case reply_text reply of Inl e \<Rightarrow> Inl e | Inr txt \<Rightarrow>
     (case reply_timestamp reply of Inl e \<Rightarrow> Inl e | Inr timestamp \<Rightarrow>
     (case reply_attachment_view image_extensions reply of Inl e \<Rightarrow> Inl e | Inr att \<Rightarrow>
        Inr (role_message role (time_str timestamp) txt @ att)))))"

fun render_all :: "(jval \<Rightarrow> py_error + event list) \<Rightarrow> jval list \<Rightarrow> py_error + event list" where
  "render_all f [] = Inr []"
| "render_all f (x # xs) =
     (case f x of
        Inl e \<Rightarrow> Inl e
      | Inr evs \<Rightarrow> (case render_all f xs of Inl e \<Rightarrow> Inl e | Inr evs' \<Rightarrow> Inr (evs @ evs')))"

text \<open>Lines 501 to 577, given the value \<^verbatim>\<open>get_ticket_replies\<close> returned.  An exception
  ends the script run: \<open>Inl\<close>.\<close>

definition conversation :: "jval \<Rightarrow> py_error + event list" where
  "conversation replies =
     (if py_truthy replies
      then (case py_len replies of
              Inl e \<Rightarrow> Inl e
            | Inr n \<Rightarrow>
                if 0 < n
                then (case py_iter (sorted_replies replies) of
                        Inl e \<Rightarrow> Inl e
                      | Inr xs \<Rightarrow>
                          (case render_all render_reply xs of
                             Inl e \<Rightarrow> Inl e
                           | Inr evs \<Rightarrow> Inr (StSuccess [Fmt (JInt (int n)), Lit '' conversation messages found''] # evs)))
                else Inr [StInfo [Lit ''No conversation messages yet. Be the first to add a reply!'']])
      else Inr [StInfo [Lit ''No conversation messages yet. Be the first to add a reply!'']])"

section \<open>The API helper functions (lines 28 to 138)\<close>

text \<open>
  What \<^verbatim>\<open>requests\<close> gives back: an exception with its message (no connection, timeout), or
  a response with its status code and what \<^verbatim>\<open>response.json()\<close> does, the decoded value
  or an exception with its message.  The backend answers a request depending on the
  requests sent before it.
\<close>

datatype outcome = Raised string | Response int "string + jval"

type_synonym server = "request list \<Rightarrow> request \<Rightarrow> outcome"

fun call_of :: "event \<Rightarrow> request option" where
  "call_of (Call r) = Some r"
| "call_of _ = None"

definition calls :: "event list \<Rightarrow> request list" where
  "calls log = List.map_filter call_of log"

definition send :: "server \<Rightarrow> request \<Rightarrow> event list \<Rightarrow> outcome \<times> event list" where
  "send srv req log = (srv (calls log) req, log @ [Call req])"

text \<open>Each helper takes the page so far and returns its Python result with the page
  after it.\<close>

definition get_all_tickets :: "server \<Rightarrow> event list \<Rightarrow> jval \<times> event list" where
  "get_all_tickets srv log =
     (case send srv GetTickets log of
        (Raised e, log') \<Rightarrow> (JArr [], log' @ [StError [Lit ''Error connecting to API: '', Lit e]])
      | (Response status_code body, log') \<Rightarrow>
          if status_code = 200
          then (case body of
                  Inr v \<Rightarrow> (v, log')
                | Inl e \<Rightarrow> (JArr [], log' @ [StError [Lit ''Error connecting to API: '', Lit e]]))
          else (JArr [], log' @ [StError [Lit ''Failed to fetch tickets: '', Fmt (JInt status_code)]]))"

definition create_ticket :: "server \<Rightarrow> jval \<Rightarrow> event list \<Rightarrow> jval \<times> event list" where
  "create_ticket srv ticket_data log =
     (case send srv (PostTickets ticket_data) log of
        (Raised e, log') \<Rightarrow> (JNull, log' @ [StError [Lit ''Error creating ticket: '', Lit e]])
      | (Response status_code body, log') \<Rightarrow>
          if status_code \<in> set [200, 201]
          then (case body of
                  Inr v \<Rightarrow> (v, log')
                | Inl e \<Rightarrow> (JNull, log' @ [StError [Lit ''Error creating ticket: '', Lit e]]))
          else (JNull, log' @ [StError [Lit ''Failed to create ticket: '', Fmt (JInt status_code)]]))"

definition get_ticket_by_id :: "server \<Rightarrow> jval \<Rightarrow> event list \<Rightarrow> jval \<times> event list" where
  "get_ticket_by_id srv ticket_id log =
     (case send srv (GetTicket ticket_id) log of
        (Raised e, log') \<Rightarrow> (JNull, log' @ [StError [Lit ''Error fetching ticket: '', Lit e]])
      | (Response status_code body, log') \<Rightarrow>
          if status_code = 200
          then (case body of
                  Inr v \<Rightarrow> (v, log')
                | Inl e \<Rightarrow> (JNull, log' @ [StError [Lit ''Error fetching ticket: '', Lit e]]))
          else (JNull, log' @ [StError [Lit ''Failed to fetch ticket: '', Fmt (JInt status_code)]]))"

text \<open>Line 71: \<^verbatim>\<open>response_data.get("signed_url") or response_data.get("attachment_url")\<close>.\<close>

definition uploaded_url :: "jval \<Rightarrow> py_error + jval" where
  "uploaded_url response_data =
     (case py_get response_data ''signed_url'' JNull of
        Inl e \<Rightarrow> Inl e
      | Inr a \<Rightarrow> if py_truthy a then Inr a else py_get response_data ''attachment_url'' JNull)"

definition upload_file_via_api ::
  "server \<Rightarrow> string \<Rightarrow> string \<Rightarrow> jval \<Rightarrow> event list \<Rightarrow> jval \<times> event list" where
  "upload_file_via_api srv file_content filename ticket_id log =
     (case send srv (PostAttachment ticket_id filename file_content) log of
        (Raised e, log') \<Rightarrow> (JNull, log' @ [StError [Lit ''Error uploading file: '', Lit e]])
      | (Response status_code body, log') \<Rightarrow>
          if status_code = 200
          then (case body of
                  Inr response_data \<Rightarrow>
                    (case uploaded_url response_data of
                       Inr v \<Rightarrow> (v, log')
                     | Inl x \<Rightarrow> (JNull, log' @ [StError [Lit ''Error uploading file: '', Exc x]]))
                | Inl e \<Rightarrow> (JNull, log' @ [StError [Lit ''Error uploading file: '', Lit e]]))
          else (JNull, log' @ [StError [Lit ''Failed to upload file: '', Fmt (JInt status_code)]]))"

text \<open>The payload carries the image only when \<^verbatim>\<open>image_base64\<close> is truthy.\<close>

definition generate_ai_reply ::
  "server \<Rightarrow> jval \<Rightarrow> string \<Rightarrow> jval \<Rightarrow> jval \<Rightarrow> event list \<Rightarrow> jval \<times> event list" where
  "generate_ai_reply srv ticket_id message image_base64 image_filename log =
     (case send srv (PostAiReply ticket_id message
                       (if py_truthy image_base64 then Some (image_base64, image_filename) else None)) log of
        (Raised e, log') \<Rightarrow> (JNull, log' @ [StError [Lit ''Error generating AI reply: '', Lit e]])
      | (Response status_code body, log') \<Rightarrow>
          if status_code = 200
          then (case body of
                  Inr v \<Rightarrow> (v, log')
                | Inl e \<Rightarrow> (JNull, log' @ [StError [Lit ''Error generating AI reply: '', Lit e]]))
          else (JNull, log' @ [StError [Lit ''Failed to generate AI reply: '', Fmt (JInt status_code)]]))"

definition send_email_via_api ::
  "server \<Rightarrow> jval \<Rightarrow> string \<Rightarrow> ftext \<Rightarrow> ftext \<Rightarrow> event list \<Rightarrow> bool \<times> event list" where
  "send_email_via_api srv ticket_id to_email subject message log =
     (case send srv (PostSendEmail ticket_id to_email subject message) log of
        (Raised e, log') \<Rightarrow> (False, log' @ [StError [Lit ''Error sending email: '', Lit e]])
      | (Response status_code body, log') \<Rightarrow> (status_code = 200, log'))"

definition add_reply_via_api :: "server \<Rightarrow> jval \<Rightarrow> jval \<Rightarrow> event list \<Rightarrow> jval \<times> event list" where
  "add_reply_via_api srv ticket_id reply_data log =
     (case send srv (PostReplies ticket_id reply_data) log of
        (Raised e, log') \<Rightarrow> (JNull, log' @ [StError [Lit ''Error adding reply: '', Lit e]])
      | (Response status_code body, log') \<Rightarrow>
          if status_code = 200
          then (case body of
                  Inr v \<Rightarrow> (v, log')
                | Inl e \<Rightarrow> (JNull, log' @ [StError [Lit ''Error adding reply: '', Lit e]]))
          else (JNull, log' @ [StError [Lit ''Failed to add reply: '', Fmt (JInt status_code)]]))"

definition get_ticket_replies :: "server \<Rightarrow> jval \<Rightarrow> event list \<Rightarrow> jval \<times> event list" where
  "get_ticket_replies srv ticket_id log =
     (case send srv (GetTicket ticket_id) log of
        (Raised e, log') \<Rightarrow> (JArr [], log' @ [StError [Lit ''Error fetching replies: '', Lit e]])
      | (Response status_code body, log') \<Rightarrow>
          if status_code = 200
          then (case body of
                  Inr ticket_data \<Rightarrow>
                    (case py_get ticket_data ''replies'' (JArr []) of
                       Inr v \<Rightarrow> (v, log')
                     | Inl x \<Rightarrow> (JArr [], log' @ [StError [Lit ''Error fetching replies: '', Exc x]]))
                | Inl e \<Rightarrow> (JArr [], log' @ [StError [Lit ''Error fetching replies: '', Lit e]]))
          else (JArr [], log'))"

definition update_ticket_status :: "server \<Rightarrow> jval \<Rightarrow> jval \<Rightarrow> event list \<Rightarrow> bool \<times> event list" where
  "update_ticket_status srv ticket_id status log =
     (case send srv (PatchStatus ticket_id status) log of
        (Raised e, log') \<Rightarrow> (False, log' @ [StError [Lit ''Error updating ticket status: '', Lit e]])
      | (Response status_code body, log') \<Rightarrow> (status_code = 200, log'))"

section \<open>Creating a ticket (\<^verbatim>\<open>create_ticket_page\<close>, lines 309 to 349)\<close>

record uploaded_file =
  name :: string
  getvalue :: string

record ticket_form =
  title :: string
  category :: string
  created_by :: string
  priority :: string
  email :: string
  description :: string
  uploaded_files :: "uploaded_file list"
  submit :: bool

text \<open>Lines 328 to 332: every file is sent, whatever the earlier uploads returned.\<close>

fun upload_files :: "server \<Rightarrow> jval \<Rightarrow> uploaded_file list \<Rightarrow> event list \<Rightarrow> event list" where
  "upload_files srv ticket_id [] log = log"
| "upload_files srv ticket_id (f # fs) log =
     (case upload_file_via_api srv (getvalue f) (name f) ticket_id log of
        (file_url, log') \<Rightarrow>
          upload_files srv ticket_id fs
            (if py_truthy file_url
             then log' @ [StInfo [Lit (''File '' @ [CHR 0x27]), Lit (name f),
                               Lit (CHR 0x27 # '' uploaded successfully!'')]]
             else log'))"

text \<open>Lines 315 to 319, 335 and 343 to 347: what is sent with the ticket, to the AI
  and by email.\<close>

definition ticket_data_of :: "ticket_form \<Rightarrow> jval" where
  "ticket_data_of form =
     JObj [(''title'', JStr (title form)),
           (''description'', JStr (description form)),
           (''category'', JStr (category form))]"

definition ai_message :: "ticket_form \<Rightarrow> string" where
  "ai_message form = ''New ticket: '' @ title form @ [CHR 0x0A, CHR 0x0A] @ description form"

definition email_subject :: "jval \<Rightarrow> ftext" where
  "email_subject ticket_id = [Lit ''Ticket #'', Fmt ticket_id, Lit '' Created Successfully'']"

definition email_message :: "ticket_form \<Rightarrow> jval \<Rightarrow> ftext" where
  "email_message form ticket_id =
     [Lit (''Your ticket '' @ [CHR 0x27]), Lit (title form),
      Lit (CHR 0x27 # '' has been created and assigned ID #''), Fmt ticket_id,
      Lit (''. We'' @ [CHR 0x27] @ ''ll get back to you soon!'')]"

text \<open>The result is the exception that ended the run, if any, and the page.\<close>

definition create_ticket_page :: "server \<Rightarrow> ticket_form \<Rightarrow> event list \<Rightarrow> py_error option \<times> event list" where
  "create_ticket_page srv form log =
     (if submit form
      then
        if \<not> (title form \<noteq> [] \<and> category form \<noteq> [] \<and> description form \<noteq> [] \<and> created_by form \<noteq> [])
        then (None, log @ [StError [Lit ''Please fill in all required fields (*)'']])
        else
          (case create_ticket srv (ticket_data_of form) log of
             (new_ticket, log1) \<Rightarrow>
               if py_truthy new_ticket
               then
                 (case py_item new_ticket ''id'' of
                    Inl e \<Rightarrow> (Some e, log1)
                  | Inr ticket_id \<Rightarrow>
                      (let log2 = log1 @ [StSuccess [Lit ''Ticket #'', Fmt ticket_id,
                                                     Lit '' created successfully!'']];
                           log3 = upload_files srv ticket_id (uploaded_files form) log2
                       in case generate_ai_reply srv ticket_id (ai_message form) JNull JNull log3 of
                            (ai_response, log4) \<Rightarrow>
                              (let log5 = (if py_truthy ai_response
                                           then log4 @ [StInfo [Lit ''AI assistant has reviewed your ticket!'']]
                                           else log4) @ [StBalloons]
                               in if email form \<noteq> []
                                  then
                                    (case send_email_via_api srv ticket_id (email form)
                                            (email_subject ticket_id)
                                            (email_message form ticket_id) log5 of
                                       (sent, log6) \<Rightarrow>
                                         (None, if sent
                                                then log6 @ [StInfo [Lit ''Confirmation email sent!'']]
                                                else log6))
                                  else (None, log5))))
               else (None, log1))
      else (None, log))"

section \<open>The ticket's attachment (\<^verbatim>\<open>show_ticket_details\<close>, lines 436 to 493)\<close>

definition ticket_attachment_view :: "jval \<Rightarrow> py_error + event list" where
  "ticket_attachment_view ticket =
     (case py_get ticket ''attachment_url'' JNull of
        Inl e \<Rightarrow> Inl e
      | Inr u \<Rightarrow>
          if py_truthy u
          then (case ticket_attachment u of
                  Inl e \<Rightarrow> Inl e
                | Inr (file_name, k) \<Rightarrow> Inr [Attachment k file_name u])
          else Inr [])"

section \<open>The admin panel (\<^verbatim>\<open>admin_panel\<close>)\<close>

text \<open>Lines 644 to 660.  The session holds the flag once the panel has been opened;
  the form is absent when the button was not pressed.\<close>

record session_state =
  admin_authenticated :: "bool option"

datatype gate = LoginPage | Rerun | Dashboard

definition admin_panel_login ::
  "session_state \<Rightarrow> (string \<times> string) option \<Rightarrow> session_state \<times> event list \<times> gate" where
  "admin_panel_login st login =
     (let st1 = (if admin_authenticated st = None then st\<lparr>admin_authenticated := Some False\<rparr> else st)
      in if admin_authenticated st1 \<noteq> Some True
         then (case login of
                 None \<Rightarrow> (st1, [], LoginPage)
               | Some (username, password) \<Rightarrow>
                   if username = ''admin'' \<and> password = ''admin''
                   then (st1\<lparr>admin_authenticated := Some True\<rparr>,
                         [StSuccess [Lit ''Logged in successfully!'']], Rerun)
                   else (st1, [StError [Lit ''Invalid credentials'']], LoginPage))
         else (st1, [], Dashboard))"

text \<open>Lines 695 to 744: the conversation as the admin panel shows it, unsorted and
  without time stamps.\<close>

definition admin_render_reply :: "jval \<Rightarrow> py_error + event list" where
  "admin_render_reply reply =
     (case reply_role reply of Inl e \<Rightarrow> Inl e | Inr role \<Rightarrow>
     (case reply_text reply of Inl e \<Rightarrow> Inl e | Inr txt \<Rightarrow>
     (case reply_attachment_view admin_image_extensions reply of Inl e \<Rightarrow> Inl e | Inr att \<Rightarrow>
        Inr (role_message role None txt @ att))))"

definition admin_conversation :: "jval \<Rightarrow> py_error + event list" where
  "admin_conversation replies =
     (if py_truthy replies
      then (case py_iter replies of
              Inl e \<Rightarrow> Inl e
            | Inr xs \<Rightarrow> render_all admin_render_reply xs)
      else Inr [])"

section \<open>Notions used to state the properties\<close>

text \<open>A fetch succeeded when there is a response and its status code is 200.\<close>

definition outcome_ok :: "outcome \<Rightarrow> bool" where
  "outcome_ok out = (case out of Raised e \<Rightarrow> False | Response c b \<Rightarrow> c = 200)"

text \<open>The field policy as the specification words it, "first present wins": the value
  of the first field if the record has it, else of the second field if the record has
  it, else the default.\<close>

definition first_present :: "(string \<times> jval) list \<Rightarrow> string \<Rightarrow> string \<Rightarrow> jval \<Rightarrow> jval" where
  "first_present kvs k1 k2 d =
     (case map_of kvs k1 of
        Some v \<Rightarrow> v
      | None \<Rightarrow> (case map_of kvs k2 of Some w \<Rightarrow> w | None \<Rightarrow> d))"

text \<open>The policy with truthiness deciding the first step: the value of the first field
  if the record has it and it is truthy, else the value of the second field if the
  record has it, else the default.\<close>

definition first_truthy :: "(string \<times> jval) list \<Rightarrow> string \<Rightarrow> string \<Rightarrow> jval \<Rightarrow> jval" where
  "first_truthy kvs k1 k2 d =
     (let second = (case map_of kvs k2 of Some w \<Rightarrow> w | None \<Rightarrow> d)
      in case map_of kvs k1 of
           Some v \<Rightarrow> if py_truthy v then v else second
         | None \<Rightarrow> second)"

text \<open>The events that come from the role-specific branches.\<close>

definition is_chat :: "event \<Rightarrow> bool" where
  "is_chat ev = (case ev of ChatMessage b t x \<Rightarrow> True | _ \<Rightarrow> False)"

text \<open>The last path segment of a URL without its query, as \<^const>\<open>file_name_of_url\<close>
  computes it (\<^const>\<open>py_split\<close> never returns the empty list).\<close>

definition path_part_of :: "string \<Rightarrow> string" where
  "path_part_of url = last (py_split (CHR ''/'') (hd (py_split (CHR ''?'') url)))"

text \<open>The scan as the specification words it: the first part whose lowercase form
  contains one of the thirteen extensions, written without a dot, and from there to the
  end; the last part when no part matches.\<close>

definition spec_extensions :: "string list" where
  "spec_extensions =
     [''png'', ''jpg'', ''jpeg'', ''gif'', ''webp'', ''bmp'', ''svg'', ''pdf'', ''txt'',
      ''doc'', ''xlsx'', ''docx'', ''zip'']"

definition spec_has_extension :: "string \<Rightarrow> bool" where
  "spec_has_extension part = list_ex (\<lambda>ext. py_in ext (py_lower part)) spec_extensions"

fun spec_recover :: "string list \<Rightarrow> string" where
  "spec_recover [] = []"
| "spec_recover [p] = p"
| "spec_recover (p # q # ps) =
     (if spec_has_extension p then py_join ''_'' (p # q # ps) else spec_recover (q # ps))"

text \<open>The sort key of a reply when it is a string, and whether it is one.\<close>

definition has_str_key :: "jval \<Rightarrow> bool" where
  "has_str_key r = (case sort_key_of r of Inr (JStr s) \<Rightarrow> True | _ \<Rightarrow> False)"

definition str_key :: "jval \<Rightarrow> string" where
  "str_key r = (case sort_key_of r of Inr (JStr s) \<Rightarrow> s | _ \<Rightarrow> [])"

text \<open>The requests of a complete creation workflow, in their order.\<close>

definition workflow_calls :: "ticket_form \<Rightarrow> jval \<Rightarrow> request list" where
  "workflow_calls form ticket_id =
     PostTickets (ticket_data_of form)
     # map (\<lambda>f. PostAttachment ticket_id (name f) (getvalue f)) (uploaded_files form)
     @ [PostAiReply ticket_id (ai_message form) None]
     @ (if email form = [] then []
        else [PostSendEmail ticket_id (email form) (email_subject ticket_id)
                (email_message form ticket_id)])"

text \<open>A form with two files and an address; a backend that creates ticket 7, refuses
  every upload and accepts the rest; a backend that is down.\<close>

definition demo_form :: ticket_form where
  "demo_form =
     \<lparr>title = ''Printer'', category = ''Technical'', created_by = ''Ann'',
      priority = ''Medium'', email = ''ann@example.org'', description = ''It is broken'',
      uploaded_files = [\<lparr>name = ''a.txt'', getvalue = ''x''\<rparr>, \<lparr>name = ''b.png'', getvalue = ''y''\<rparr>],
      submit = True\<rparr>"

definition demo_backend :: server where
  "demo_backend h r =
     (case r of
        PostTickets d \<Rightarrow> Response 201 (Inr (JObj [(''id'', JInt 7)]))
      | PostAttachment t n c \<Rightarrow> Response 500 (Inl ''no JSON'')
      | _ \<Rightarrow> Response 200 (Inr (JObj [(''ok'', JBool True)])))"

definition down_backend :: server where
  "down_backend h r = Raised ''connection refused''"

text \<open>
  The contract the helpers with a payload follow.  The helper has sent \<open>req\<close> on the
  page \<open>log\<close> and got \<open>out\<close>; \<open>res\<close> is its result and the page after it.  On a status
  code accepted by \<open>ok\<close> with a body that decodes, the result is what \<open>dec\<close> makes of
  the payload.  Otherwise the result is the bare \<open>sentinel\<close>, and the cause is written
  to the page: the status code after the text \<open>failed_to\<close>, or the exception after the
  text \<open>error_doing\<close>.
\<close>

definition follows_scheme ::
  "(int \<Rightarrow> bool) \<Rightarrow> (jval \<Rightarrow> py_error + jval) \<Rightarrow> jval \<Rightarrow> string \<Rightarrow> string \<Rightarrow>
   request \<Rightarrow> outcome \<Rightarrow> event list \<Rightarrow> jval \<times> event list \<Rightarrow> bool" where
  "follows_scheme ok dec sentinel failed_to error_doing req out log res =
     (case out of
        Raised e \<Rightarrow> res = (sentinel, log @ [Call req, StError [Lit error_doing, Lit e]])
      | Response c body \<Rightarrow>
          if ok c
          then (case body of
                  Inl e \<Rightarrow> res = (sentinel, log @ [Call req, StError [Lit error_doing, Lit e]])
                | Inr v \<Rightarrow>
                    (case dec v of
                       Inl x \<Rightarrow> res = (sentinel, log @ [Call req, StError [Lit error_doing, Exc x]])
                     | Inr u \<Rightarrow> res = (u, log @ [Call req])))
          else res = (sentinel, log @ [Call req, StError [Lit failed_to, Fmt (JInt c)]]))"

text \<open>The contract of the two helpers that return a truth value: the body is not read,
  and a status code other than 200 writes nothing to the page.\<close>

definition follows_bool_scheme ::
  "string \<Rightarrow> request \<Rightarrow> outcome \<Rightarrow> event list \<Rightarrow> bool \<times> event list \<Rightarrow> bool" where
  "follows_bool_scheme error_doing req out log res =
     (case out of
        Raised e \<Rightarrow> res = (False, log @ [Call req, StError [Lit error_doing, Lit e]])
      | Response c body \<Rightarrow> res = (c = 200, log @ [Call req]))"


section \<open>Properties\<close>

subsection \<open>Failed fetches\<close>

text \<open>
  Claim C9.  When fetching all tickets fails, by an exception of the transport or by a
  status code other than 200, \<^const>\<open>get_all_tickets\<close> returns the empty list, and so does
  \<^const>\<open>get_ticket_replies\<close> when fetching the ticket fails.  That is also what they
  return for a backend that answers 200 with no tickets, or with a ticket that has no
  replies: the returned value does not tell the caller which of the two happened.
\<close>

theorem fetch_failure_is_empty_list:
  "(\<not> outcome_ok (srv (calls log) GetTickets) \<longrightarrow>
      fst (get_all_tickets srv log) = JArr []
      \<and> fst (get_all_tickets srv log)
          = fst (get_all_tickets (\<lambda>h r. Response 200 (Inr (JArr []))) log))
   \<and> (\<not> outcome_ok (srv (calls log) (GetTicket ticket_id)) \<longrightarrow>
      fst (get_ticket_replies srv ticket_id log) = JArr []
      \<and> fst (get_ticket_replies srv ticket_id log)
          = fst (get_ticket_replies
                   (\<lambda>h r. Response 200 (Inr (JObj [(''id'', ticket_id), (''replies'', JArr [])])))
                   ticket_id log))"
  by (auto simp: get_all_tickets_def get_ticket_replies_def send_def outcome_ok_def
           split: outcome.splits sum.splits)

theorem fetch_failure_is_empty_list_witness:
  "\<not> outcome_ok ((\<lambda>h r. Response 503 (Inl ''no body'')) (calls []) GetTickets)
   \<and> fst (get_all_tickets (\<lambda>h r. Response 503 (Inl ''no body'')) []) = JArr []
   \<and> \<not> outcome_ok ((\<lambda>h r. Raised ''timed out'') (calls []) (GetTicket (JInt 7)))
   \<and> fst (get_ticket_replies (\<lambda>h r. Raised ''timed out'') (JInt 7) []) = JArr []"
proof -
  have a: "\<not> outcome_ok ((\<lambda>h r. Response 503 (Inl ''no body'')) (calls []) GetTickets)"
    by (simp add: outcome_ok_def)
  have b: "\<not> outcome_ok ((\<lambda>h r. Raised ''timed out'') (calls []) (GetTicket (JInt 7)))"
    by (simp add: outcome_ok_def)
  from a b
    fetch_failure_is_empty_list [of "\<lambda>h r. Response 503 (Inl ''no body'')" "[]"]
    fetch_failure_is_empty_list [of "\<lambda>h r. Raised ''timed out''" "[]" "JInt 7"]
  show ?thesis by blast
qed

subsection \<open>The admin login\<close>

text \<open>
  Claim C10.  In a session that is not authenticated, pressing Login sets the flag
  \<^verbatim>\<open>admin_authenticated\<close> to true exactly when the user name is \<^verbatim>\<open>admin\<close> and the
  password is \<^verbatim>\<open>admin\<close>; with any other pair the flag is false afterwards.
\<close>

theorem admin_login_iff:
  assumes "admin_authenticated st \<noteq> Some True"
  shows "admin_authenticated (fst (admin_panel_login st (Some (username, password))))
           = Some (username = ''admin'' \<and> password = ''admin'')"
  using assms
  by (cases "admin_authenticated st") (auto simp: admin_panel_login_def Let_def)

theorem admin_login_iff_witness:
  "admin_authenticated \<lparr>admin_authenticated = None\<rparr> \<noteq> Some True
   \<and> admin_authenticated
        (fst (admin_panel_login \<lparr>admin_authenticated = None\<rparr> (Some (''admin'', ''admin''))))
      = Some True
   \<and> admin_authenticated
        (fst (admin_panel_login \<lparr>admin_authenticated = None\<rparr> (Some (''admin'', ''Admin''))))
      = Some False"
proof -
  have h: "admin_authenticated \<lparr>admin_authenticated = None\<rparr> \<noteq> Some True"
    by simp
  show ?thesis
    using h admin_login_iff [OF h, of "''admin''" "''admin''"]
      admin_login_iff [OF h, of "''admin''" "''Admin''"]
    by simp
qed

subsection \<open>The fields of a reply\<close>

text \<open>
  Claim C5, as the code has it.  For every reply record the role is the \<^verbatim>\<open>role\<close> field
  when it is present and truthy, else the \<^verbatim>\<open>reply_type\<close> field when it is present, else
  \<^verbatim>\<open>user\<close>; the text is the \<^verbatim>\<open>text\<close> field when present and truthy, else the \<^verbatim>\<open>content\<close>
  field when present, else the empty string; the time stamp is the \<^verbatim>\<open>created_at\<close> field
  when present and truthy, else the \<^verbatim>\<open>timestamp\<close> field when present, else the empty
  string.  Truthiness decides the first step, presence the second.
\<close>

theorem reply_fields_first_truthy:
  "reply_role (JObj kvs) = Inr (first_truthy kvs ''role'' ''reply_type'' (JStr ''user''))
   \<and> reply_text (JObj kvs) = Inr (first_truthy kvs ''text'' ''content'' (JStr []))
   \<and> reply_timestamp (JObj kvs) = Inr (first_truthy kvs ''created_at'' ''timestamp'' (JStr []))"
  by (simp add: reply_role_def reply_text_def reply_timestamp_def first_truthy_def Let_def
           split: option.splits)

text \<open>
  Claim C5 as stated fails: a reply with an empty \<^verbatim>\<open>role\<close> and the \<^verbatim>\<open>reply_type\<close>
  \<^verbatim>\<open>admin\<close> has the role field present, yet the code takes the role from \<^verbatim>\<open>reply_type\<close>.
\<close>

theorem reply_role_presence_counterexample:
  "reply_role (JObj [(''role'', JStr []), (''reply_type'', JStr ''admin'')])
     \<noteq> Inr (first_present [(''role'', JStr []), (''reply_type'', JStr ''admin'')]
               ''role'' ''reply_type'' (JStr ''user''))"
  by (simp add: reply_role_def first_present_def)

subsection \<open>Replies with an unknown role\<close>

lemma py_eq_JStr [simp]: "py_eq v (JStr s) = (v = JStr s)"
  by (cases v) (auto simp: py_eq.simps(1))

lemma role_message_unknown:
  "role \<notin> {JStr ''user'', JStr ''ai'', JStr ''admin''} \<Longrightarrow> role_message role ts txt = []"
  by (simp add: role_message_def)

lemma reply_role_Inr_obj: "reply_role reply = Inr role \<Longrightarrow> \<exists>kvs. reply = JObj kvs"
  by (cases reply) (auto simp: reply_role_def)

text \<open>
  What holds of the role tests themselves.  For a reply whose resolved role is none of
  \<^verbatim>\<open>user\<close>, \<^verbatim>\<open>ai\<close>, \<^verbatim>\<open>admin\<close>, the chain of role tests produces nothing and raises
  nothing, in the ticket view and in the admin panel: what is shown for the reply is
  what is shown for its attachment alone.  When the attachment URL is absent, falsy or
  a string, the reply is rendered without an exception and without a chat message.
\<close>

lemma unknown_role_omitted:
  assumes "reply_role reply = Inr role"
    and "role \<notin> {JStr ''user'', JStr ''ai'', JStr ''admin''}"
  shows "role_message role ts txt = []
    \<and> render_reply reply = reply_attachment_view image_extensions reply
    \<and> admin_render_reply reply = reply_attachment_view admin_image_extensions reply
    \<and> (\<forall>u. py_get reply ''attachment_url'' JNull = Inr u \<and> (\<not> py_truthy u \<or> (\<exists>s. u = JStr s))
          \<longrightarrow> (\<exists>evs. render_reply reply = Inr evs \<and> \<not> list_ex is_chat evs)
            \<and> (\<exists>evs. admin_render_reply reply = Inr evs \<and> \<not> list_ex is_chat evs))"
proof -
  from assms(1) obtain kvs where r: "reply = JObj kvs"
    using reply_role_Inr_obj by blast
  have m: "role_message role t x = []" for t x
    using assms(2) by (rule role_message_unknown)
  have a: "render_reply reply = reply_attachment_view image_extensions reply"
    using assms(1) m
    by (simp add: r render_reply_def reply_text_def reply_timestamp_def split: sum.splits)
  have b: "admin_render_reply reply = reply_attachment_view admin_image_extensions reply"
    using assms(1) m
    by (simp add: r admin_render_reply_def reply_text_def split: sum.splits)
  have c: "\<exists>evs. reply_attachment_view exts reply = Inr evs \<and> \<not> list_ex is_chat evs"
    if "py_get reply ''attachment_url'' JNull = Inr u" "\<not> py_truthy u \<or> (\<exists>s. u = JStr s)"
    for u exts
    using that
    by (auto simp: reply_attachment_view_def reply_attachment_def is_image_url_def is_chat_def Let_def)
  show ?thesis using m a b c by auto
qed

lemma unknown_role_omitted_example:
  "reply_role (JObj [(''role'', JStr ''bot''), (''text'', JStr ''hi'')]) = Inr (JStr ''bot'')
   \<and> JStr ''bot'' \<notin> {JStr ''user'', JStr ''ai'', JStr ''admin''}
   \<and> py_get (JObj [(''role'', JStr ''bot''), (''text'', JStr ''hi'')]) ''attachment_url'' JNull = Inr JNull
   \<and> \<not> py_truthy JNull
   \<and> role_message (JStr ''bot'') None (JStr ''hi'') = []
   \<and> render_reply (JObj [(''role'', JStr ''bot''), (''text'', JStr ''hi'')]) = Inr []
   \<and> admin_render_reply (JObj [(''role'', JStr ''bot''), (''text'', JStr ''hi'')]) = Inr []"
proof -
  let ?r = "JObj [(''role'', JStr ''bot''), (''text'', JStr ''hi'')]"
  have h1: "reply_role ?r = Inr (JStr ''bot'')"
    by (simp add: reply_role_def)
  have h2: "JStr ''bot'' \<notin> {JStr ''user'', JStr ''ai'', JStr ''admin''}"
    by simp
  have v: "reply_attachment_view exts ?r = Inr []" for exts
    by (simp add: reply_attachment_view_def)
  show ?thesis
    using h1 h2 v unknown_role_omitted [OF h1 h2, of None "JStr ''hi''"]
    by simp
qed

text \<open>
  Claim C6 at a conversation whose only reply has the role \<^verbatim>\<open>bot\<close>.  Without an
  attachment the reply is left out and the conversation is rendered, in the ticket
  view and in the admin panel.  With the attachment URL 123 the rendering of the
  conversation ends with an \<^verbatim>\<open>AttributeError\<close> in both places: the file name is absorbed
  by the \<^verbatim>\<open>try\<close>, but \<^verbatim>\<open>reply_attachment.lower()\<close> of line 562 and \<^verbatim>\<open>attachment_url.lower()\<close>
  of line 738 stand after it.
\<close>

theorem unknown_role_reply_raises:
  "reply_role (JObj [(''role'', JStr ''bot''), (''text'', JStr ''hi'')]) = Inr (JStr ''bot'')
   \<and> conversation (JArr [JObj [(''role'', JStr ''bot''), (''text'', JStr ''hi'')]])
       = Inr [StSuccess [Fmt (JInt 1), Lit '' conversation messages found'']]
   \<and> admin_conversation (JArr [JObj [(''role'', JStr ''bot''), (''text'', JStr ''hi'')]]) = Inr []
   \<and> reply_role (JObj [(''role'', JStr ''bot''), (''text'', JStr ''hi''), (''attachment_url'', JInt 123)])
       = Inr (JStr ''bot'')
   \<and> render_reply (JObj [(''role'', JStr ''bot''), (''text'', JStr ''hi''), (''attachment_url'', JInt 123)])
       = Inl AttributeError
   \<and> conversation
        (JArr [JObj [(''role'', JStr ''bot''), (''text'', JStr ''hi''), (''attachment_url'', JInt 123)]])
       = Inl AttributeError
   \<and> admin_conversation
        (JArr [JObj [(''role'', JStr ''bot''), (''text'', JStr ''hi''), (''attachment_url'', JInt 123)]])
       = Inl AttributeError"
  by (simp add: conversation_def admin_conversation_def sorted_replies_def py_sorted_def
        sort_key_of_def render_reply_def admin_render_reply_def reply_role_def reply_text_def
        reply_timestamp_def reply_attachment_view_def reply_attachment_def is_image_url_def
        role_message_def time_str_def Let_def)

subsection \<open>The URL of an uploaded file\<close>

text \<open>
  Claim C7.  When the upload is answered with status 200 and a JSON object, the helper
  returns the signed URL whenever one is offered (the field \<^verbatim>\<open>signed_url\<close> holds a truthy
  value), whether or not a permanent URL comes with it; when no signed URL is offered
  it returns the permanent one, the field \<^verbatim>\<open>attachment_url\<close>.
\<close>

theorem uploaded_url_prefers_signed:
  assumes "srv (calls log) (PostAttachment ticket_id filename file_content)
             = Response 200 (Inr (JObj kvs))"
  shows "(\<forall>s. map_of kvs ''signed_url'' = Some s \<and> py_truthy s \<longrightarrow>
            fst (upload_file_via_api srv file_content filename ticket_id log) = s)
       \<and> (\<forall>a. (map_of kvs ''signed_url'' = None
                 \<or> (\<exists>s. map_of kvs ''signed_url'' = Some s \<and> \<not> py_truthy s))
                \<and> map_of kvs ''attachment_url'' = Some a \<longrightarrow>
            fst (upload_file_via_api srv file_content filename ticket_id log) = a)"
  using assms
  by (auto simp: upload_file_via_api_def send_def uploaded_url_def)

theorem uploaded_url_prefers_signed_witness:
  "(\<lambda>h r. Response 200 (Inr (JObj [(''signed_url'', JStr ''https://s/f?sig=1''),
                                      (''attachment_url'', JStr ''https://p/f'')])))
     (calls []) (PostAttachment (JInt 7) ''f.txt'' ''data'')
     = Response 200 (Inr (JObj [(''signed_url'', JStr ''https://s/f?sig=1''),
                                (''attachment_url'', JStr ''https://p/f'')]))
   \<and> fst (upload_file_via_api
            (\<lambda>h r. Response 200 (Inr (JObj [(''signed_url'', JStr ''https://s/f?sig=1''),
                                             (''attachment_url'', JStr ''https://p/f'')])))
            ''data'' ''f.txt'' (JInt 7) []) = JStr ''https://s/f?sig=1''
   \<and> (\<lambda>h r. Response 200 (Inr (JObj [(''attachment_url'', JStr ''https://p/f'')])))
     (calls []) (PostAttachment (JInt 7) ''f.txt'' ''data'')
     = Response 200 (Inr (JObj [(''attachment_url'', JStr ''https://p/f'')]))
   \<and> fst (upload_file_via_api
            (\<lambda>h r. Response 200 (Inr (JObj [(''attachment_url'', JStr ''https://p/f'')])))
            ''data'' ''f.txt'' (JInt 7) []) = JStr ''https://p/f''"
proof -
  let ?both = "[(''signed_url'', JStr ''https://s/f?sig=1''), (''attachment_url'', JStr ''https://p/f'')]"
  let ?one = "[(''attachment_url'', JStr ''https://p/f'')]"
  have a: "(\<lambda>h r. Response 200 (Inr (JObj ?both))) (calls []) (PostAttachment (JInt 7) ''f.txt'' ''data'')
             = Response 200 (Inr (JObj ?both))"
    by simp
  have b: "(\<lambda>h r. Response 200 (Inr (JObj ?one))) (calls []) (PostAttachment (JInt 7) ''f.txt'' ''data'')
             = Response 200 (Inr (JObj ?one))"
    by simp
  show ?thesis
    using uploaded_url_prefers_signed [OF a] uploaded_url_prefers_signed [OF b]
    by simp
qed

subsection \<open>The file name of an attachment\<close>

lemma py_split_not_Nil [simp]: "py_split sep s \<noteq> []"
  by (induction s) (auto split: list.splits)

lemma py_first_split: "py_first (py_split sep s) = Inr (hd (py_split sep s))"
  by (cases "py_split sep s") simp_all

lemma py_last_split: "py_last (py_split sep s) = Inr (last (py_split sep s))"
  by (cases "py_split sep s") simp_all

lemma scan_parts_first:
  assumes "i < length parts" and "has_extension (parts ! i)"
    and "\<forall>j. i0 \<le> j \<and> j < i \<longrightarrow> \<not> has_extension (parts ! j)" and "i0 \<le> i"
  shows "scan_parts parts i0 = Some (py_join ''_'' (drop i parts))"
  using assms
proof (induction "i - i0" arbitrary: i0)
  case 0
  then have "i0 = i" by simp
  with "0.prems" show ?case by (simp add: scan_parts.simps)
next
  case (Suc n)
  then have lt: "i0 < i" and n: "n = i - Suc i0" by simp_all
  have no: "\<not> has_extension (parts ! i0)"
    using Suc.prems(3) lt by simp
  have rest: "\<forall>j. Suc i0 \<le> j \<and> j < i \<longrightarrow> \<not> has_extension (parts ! j)"
    using Suc.prems(3) by simp
  have "scan_parts parts (Suc i0) = Some (py_join ''_'' (drop i parts))"
    using Suc.hyps(1) [OF n Suc.prems(1) Suc.prems(2) rest] lt by simp
  moreover have "i0 < length parts"
    using lt Suc.prems(1) by simp
  ultimately show ?case
    using no by (subst scan_parts.simps) simp
qed

lemma scan_parts_none:
  "\<forall>j. i0 \<le> j \<and> j < length parts \<longrightarrow> \<not> has_extension (parts ! j) \<Longrightarrow> scan_parts parts i0 = None"
proof (induction "length parts - i0" arbitrary: i0)
  case 0
  then show ?case by (subst scan_parts.simps) simp
next
  case (Suc n)
  then have "scan_parts parts (Suc i0) = None" by simp
  then show ?case
    using Suc.prems by (subst scan_parts.simps) simp
qed

lemma file_name_of_url_parts:
  assumes "3 \<le> length (py_split (CHR ''_'') (path_part_of url))"
  shows "file_name_of_url url =
     Inr (clean_up (case scan_parts (py_split (CHR ''_'') (path_part_of url)) 0 of
                      Some f \<Rightarrow> f
                    | None \<Rightarrow> last (py_split (CHR ''_'') (path_part_of url))))"
proof -
  have "py_in ''_'' (path_part_of url)"
  proof (rule ccontr)
    assume n: "\<not> py_in ''_'' (path_part_of url)"
    have "\<not> py_in ''_'' s \<Longrightarrow> py_split (CHR ''_'') s = [s]" for s
      by (induction s) (auto simp: py_startswith_def)
    with n assms show False by simp
  qed
  then show ?thesis
    using assms
    by (simp add: file_name_of_url_def py_first_split py_last_split path_part_of_def Let_def
             split: option.splits)
qed

text \<open>
  Claim C3, as the code has it.  Take a URL whose last path segment, after the query
  has been cut off, splits on \<^verbatim>\<open>_\<close> into at least three parts.  The name of a reply's
  attachment, and of the ticket's attachment when the URL starts with \<^verbatim>\<open>http\<close>, is found
  by scanning the parts from the left for the first one that passes the test: the part
  contains a dot and its lowercase form contains one of \<^verbatim>\<open>.png .jpg .jpeg .gif .webp .bmp
  .svg .pdf .txt .doc .xlsx\<close>.  The parts from there to the end are joined with \<^verbatim>\<open>_\<close>.
  When no part passes the test, the name is the last part.  In both cases the name is
  cleaned up afterwards: first every \<^verbatim>\<open>%20\<close> becomes a space, then every \<^verbatim>\<open>%2B\<close> a plus
  sign.  The name of a ticket's attachment whose URL does not start with \<^verbatim>\<open>http\<close> is
  \<^verbatim>\<open>attachment\<close>.
\<close>

theorem file_name_scans_parts:
  assumes "parts = py_split (CHR ''_'') (path_part_of url)" and "3 \<le> length parts"
  shows "has_extension part
           = (py_in ''.'' part
              \<and> list_ex (\<lambda>ext. py_in ext (py_lower part))
                   [''.png'', ''.jpg'', ''.jpeg'', ''.gif'', ''.webp'', ''.bmp'', ''.svg'',
                    ''.pdf'', ''.txt'', ''.doc'', ''.xlsx''])
       \<and> clean_up file_name = py_replace ''%2B'' ''+'' (py_replace ''%20'' '' '' file_name)
       \<and> (\<forall>i. i < length parts \<and> has_extension (parts ! i) \<and> (\<forall>j<i. \<not> has_extension (parts ! j)) \<longrightarrow>
            reply_file_name (JStr url) = clean_up (py_join ''_'' (drop i parts))
            \<and> (py_startswith url ''http'' \<longrightarrow>
                 ticket_file_name (JStr url) = clean_up (py_join ''_'' (drop i parts))))
       \<and> ((\<forall>p\<in>set parts. \<not> has_extension p) \<longrightarrow>
            reply_file_name (JStr url) = clean_up (last parts)
            \<and> (py_startswith url ''http'' \<longrightarrow> ticket_file_name (JStr url) = clean_up (last parts)))
       \<and> (\<not> py_startswith url ''http'' \<longrightarrow> ticket_file_name (JStr url) = ''attachment'')"
proof -
  have t: "has_extension part
           = (py_in ''.'' part
              \<and> list_ex (\<lambda>ext. py_in ext (py_lower part))
                   [''.png'', ''.jpg'', ''.jpeg'', ''.gif'', ''.webp'', ''.bmp'', ''.svg'',
                    ''.pdf'', ''.txt'', ''.doc'', ''.xlsx''])"
    by (simp only: has_extension_def known_extensions_def)
  have c: "clean_up file_name = py_replace ''%2B'' ''+'' (py_replace ''%20'' '' '' file_name)"
    by (simp only: clean_up_def)
  have f: "file_name_of_url url =
     Inr (clean_up (case scan_parts parts 0 of Some f \<Rightarrow> f | None \<Rightarrow> last parts))"
    using assms(2) file_name_of_url_parts [of url] unfolding assms(1) by simp
  have a: "scan_parts parts 0 = Some (py_join ''_'' (drop i parts))"
    if "i < length parts" "has_extension (parts ! i)" "\<forall>j<i. \<not> has_extension (parts ! j)" for i
    using that scan_parts_first [of i parts 0] by simp
  have b: "scan_parts parts 0 = None" if "\<forall>p\<in>set parts. \<not> has_extension p"
    using that by (intro scan_parts_none) simp
  have scan: "(\<forall>i. i < length parts \<and> has_extension (parts ! i) \<and> (\<forall>j<i. \<not> has_extension (parts ! j)) \<longrightarrow>
            reply_file_name (JStr url) = clean_up (py_join ''_'' (drop i parts))
            \<and> (py_startswith url ''http'' \<longrightarrow>
                 ticket_file_name (JStr url) = clean_up (py_join ''_'' (drop i parts))))
       \<and> ((\<forall>p\<in>set parts. \<not> has_extension p) \<longrightarrow>
            reply_file_name (JStr url) = clean_up (last parts)
            \<and> (py_startswith url ''http'' \<longrightarrow> ticket_file_name (JStr url) = clean_up (last parts)))"
    using f a b
    by (auto simp: reply_file_name_def reply_file_name_try_def ticket_file_name_def
                   ticket_file_name_try_def)
  have other: "\<not> py_startswith url ''http'' \<longrightarrow> ticket_file_name (JStr url) = ''attachment''"
    by (simp add: ticket_file_name_def ticket_file_name_try_def)
  show ?thesis
    using t c scan other by blast
qed

theorem file_name_scans_parts_witness:
  "[''api'', ''2025-09-04T14:30:50.602985+00:00'', ''my%20test%2B1.txt'', ''v2'']
     = py_split (CHR ''_'')
         (path_part_of ''https://x/y/api_2025-09-04T14:30:50.602985+00:00_my%20test%2B1.txt_v2?sig=abc'')
   \<and> 3 \<le> length [''api'', ''2025-09-04T14:30:50.602985+00:00'', ''my%20test%2B1.txt'', ''v2'']
   \<and> has_extension ''my%20test%2B1.txt''
   \<and> \<not> has_extension ''api''
   \<and> \<not> has_extension ''2025-09-04T14:30:50.602985+00:00''
   \<and> py_startswith ''https://x/y/api_2025-09-04T14:30:50.602985+00:00_my%20test%2B1.txt_v2?sig=abc'' ''http''
   \<and> ticket_file_name
        (JStr ''https://x/y/api_2025-09-04T14:30:50.602985+00:00_my%20test%2B1.txt_v2?sig=abc'')
       = ''my test+1.txt_v2''
   \<and> [''a'', ''b.zip'', ''c''] = py_split (CHR ''_'') (path_part_of ''https://x/a_b.zip_c'')
   \<and> \<not> has_extension ''a'' \<and> \<not> has_extension ''b.zip'' \<and> \<not> has_extension ''c''
   \<and> reply_file_name (JStr ''https://x/a_b.zip_c'') = ''c''
   \<and> [''a'', ''b'', ''c.txt''] = py_split (CHR ''_'') (path_part_of ''ftp://x/a_b_c.txt'')
   \<and> \<not> py_startswith ''ftp://x/a_b_c.txt'' ''http''
   \<and> ticket_file_name (JStr ''ftp://x/a_b_c.txt'') = ''attachment''
   \<and> reply_file_name (JStr ''ftp://x/a_b_c.txt'') = ''c.txt''"
proof -
  let ?url = "''https://x/y/api_2025-09-04T14:30:50.602985+00:00_my%20test%2B1.txt_v2?sig=abc''"
  let ?parts = "[''api'', ''2025-09-04T14:30:50.602985+00:00'', ''my%20test%2B1.txt'', ''v2'']"
  have p: "?parts = py_split (CHR ''_'') (path_part_of ?url)"
    by code_simp
  have l: "3 \<le> length ?parts"
    by simp
  note t = file_name_scans_parts [OF p l, THEN conjunct1]
  have e2: "has_extension ''my%20test%2B1.txt''"
    unfolding t by code_simp
  have e0: "\<not> has_extension ''api''"
    unfolding t by code_simp
  have e1: "\<not> has_extension ''2025-09-04T14:30:50.602985+00:00''"
    unfolding t by code_simp
  have n: "\<forall>j<2. \<not> has_extension (?parts ! j)"
    using e0 e1 by (simp add: less_2_cases_iff)
  have h: "py_startswith ?url ''http''"
    by code_simp
  have c: "py_replace ''%2B'' ''+'' (py_replace ''%20'' '' '' (py_join ''_'' (drop 2 ?parts)))
             = ''my test+1.txt_v2''"
    by code_simp
  have prem: "2 < length ?parts \<and> has_extension (?parts ! 2)
                \<and> (\<forall>j<2. \<not> has_extension (?parts ! j))"
    using e2 n by simp
  have first: "ticket_file_name (JStr ?url) = ''my test+1.txt_v2''"
    using file_name_scans_parts [OF p l, THEN conjunct2, THEN conjunct2, THEN conjunct1,
            THEN spec, of 2, THEN mp, OF prem] h c
      file_name_scans_parts [OF p l, THEN conjunct2, THEN conjunct1]
    by simp
  let ?parts2 = "[''a'', ''b.zip'', ''c'']"
  have p2: "?parts2 = py_split (CHR ''_'') (path_part_of ''https://x/a_b.zip_c'')"
    by code_simp
  have l2: "3 \<le> length ?parts2"
    by simp
  have na: "\<not> has_extension ''a''" and nb: "\<not> has_extension ''b.zip''"
    and nc: "\<not> has_extension ''c''"
    unfolding t by code_simp+
  have n2: "\<forall>p\<in>set ?parts2. \<not> has_extension p"
    using na nb nc by simp
  have c2: "clean_up (last ?parts2) = ''c''"
    by code_simp
  have second: "reply_file_name (JStr ''https://x/a_b.zip_c'') = ''c''"
    using file_name_scans_parts [OF p2 l2, THEN conjunct2, THEN conjunct2, THEN conjunct2,
            THEN conjunct1, THEN mp, OF n2] c2
    by simp
  let ?parts3 = "[''a'', ''b'', ''c.txt'']"
  have p3: "?parts3 = py_split (CHR ''_'') (path_part_of ''ftp://x/a_b_c.txt'')"
    by code_simp
  have l3: "3 \<le> length ?parts3"
    by simp
  have h3: "\<not> py_startswith ''ftp://x/a_b_c.txt'' ''http''"
    by code_simp
  have third: "ticket_file_name (JStr ''ftp://x/a_b_c.txt'') = ''attachment''"
    using file_name_scans_parts [OF p3 l3, THEN conjunct2, THEN conjunct2, THEN conjunct2,
            THEN conjunct2, THEN mp, OF h3] .
  have e3: "has_extension ''c.txt''" and e30: "\<not> has_extension ''b''"
    unfolding t by code_simp+
  have prem3: "2 < length ?parts3 \<and> has_extension (?parts3 ! 2)
                \<and> (\<forall>j<2. \<not> has_extension (?parts3 ! j))"
    using e3 e30 na by (simp add: less_2_cases_iff)
  have c3: "clean_up (py_join ''_'' (drop 2 ?parts3)) = ''c.txt''"
    by code_simp
  have fourth: "reply_file_name (JStr ''ftp://x/a_b_c.txt'') = ''c.txt''"
    using file_name_scans_parts [OF p3 l3, THEN conjunct2, THEN conjunct2, THEN conjunct1,
            THEN spec, of 2, THEN mp, OF prem3] c3
    by simp
  show ?thesis
    using p l e2 e0 e1 h first p2 na nb nc second p3 h3 third fourth by blast
qed

text \<open>
  Claim C3 as stated fails twice.  The part \<^verbatim>\<open>png\<close> contains the extension \<^verbatim>\<open>png\<close> of the
  specification's list but no dot, so the code passes it by and finds \<^verbatim>\<open>c.txt\<close>; the part
  \<^verbatim>\<open>b.zip\<close> contains \<^verbatim>\<open>zip\<close>, which the code's list does not have, so the code falls back to
  the last part.
\<close>

theorem file_name_extensions_counterexample:
  "ticket_file_name (JStr ''https://x/a_png_c.txt'') = ''c.txt''
   \<and> spec_recover (py_split (CHR ''_'') (path_part_of ''https://x/a_png_c.txt'')) = ''png_c.txt''
   \<and> ticket_file_name (JStr ''https://x/a_b.zip_c'') = ''c''
   \<and> spec_recover (py_split (CHR ''_'') (path_part_of ''https://x/a_b.zip_c'')) = ''b.zip_c''"
  by code_simp

subsection \<open>Attachments that are not strings\<close>

text \<open>
  Claim C8 at a ticket whose \<^verbatim>\<open>attachment_url\<close> is the number 123.  The \<^verbatim>\<open>except\<close> branch
  sets the file name to \<^verbatim>\<open>attachment\<close>, but the test for the kind of the file calls
  \<^verbatim>\<open>attachment_url.lower()\<close> after the \<^verbatim>\<open>try\<close>: the \<^verbatim>\<open>AttributeError\<close> leaves the function
  instead of the kind \<^verbatim>\<open>document\<close> being returned.  The same happens for a reply.
\<close>

theorem non_string_attachment_raises:
  "ticket_file_name (JInt 123) = ''attachment''
   \<and> ticket_attachment (JInt 123) = Inl AttributeError
   \<and> ticket_attachment_view (JObj [(''attachment_url'', JInt 123)]) = Inl AttributeError
   \<and> reply_attachment_view image_extensions (JObj [(''attachment_url'', JInt 123)]) = Inl AttributeError"
  by (simp add: ticket_file_name_def ticket_file_name_try_def ticket_attachment_def is_image_url_def
       ticket_attachment_view_def reply_attachment_view_def reply_attachment_def Let_def)

subsection \<open>The order of the conversation\<close>

text \<open>Inserting keeps the elements; with string keys it cannot fail, keeps the list
  sorted and puts the new element behind its equals.\<close>

lemma insert_py_mset:
  "insert_py x ys = Inr zs \<Longrightarrow> mset zs = add_mset x (mset ys)"
  by (induction ys arbitrary: zs) (auto split: sum.splits bool.splits)

lemma insert_py_length:
  "insert_py x ys = Inr zs \<Longrightarrow> length zs = Suc (length ys)"
  by (induction ys arbitrary: zs) (auto split: sum.splits bool.splits)

lemma insert_py_str:
  assumes "\<forall>y\<in>set ys. \<exists>s. fst y = JStr s" and "fst x = JStr k"
  shows "\<exists>zs. insert_py x ys = Inr zs"
  using assms by (induction ys) (auto split: sum.splits bool.splits)

lemma insert_py_sorted:
  assumes "insert_py x ys = Inr zs"
    and "\<forall>y\<in>set ys. fst y = JStr (K y)" and "fst x = JStr (K x)"
    and "sorted (map K ys)"
  shows "sorted (map K zs)
       \<and> filter (\<lambda>y. K y = k) zs = filter (\<lambda>y. K y = k) ys @ (if K x = k then [x] else [])"
  using assms
proof (induction ys arbitrary: zs)
  case Nil
  then show ?case by auto
next
  case (Cons y ys)
  have ky: "fst y = JStr (K y)" using Cons.prems(2) by simp
  show ?case
  proof (cases "K x < K y")
    case True
    then have zs: "zs = x # y # ys"
      using Cons.prems(1) ky Cons.prems(3) by simp
    have "\<forall>z\<in>set (y # ys). K x < K z"
      using True Cons.prems(4) by auto
    then have "filter (\<lambda>z. K z = k) (y # ys) = []" if "K x = k"
      using that by (auto simp: filter_empty_conv)
    then show ?thesis
      using zs True Cons.prems(4) by (auto simp: less_imp_le)
  next
    case False
    then obtain ws where ws: "insert_py x ys = Inr ws" and zs: "zs = y # ws"
      using Cons.prems(1) ky Cons.prems(3) by (auto split: sum.splits)
    have ih: "sorted (map K ws)
       \<and> filter (\<lambda>y. K y = k) ws = filter (\<lambda>y. K y = k) ys @ (if K x = k then [x] else [])"
      using Cons.IH [OF ws] Cons.prems by simp
    have "set ws = insert x (set ys)"
      using insert_py_mset [OF ws] by (metis set_mset_add_mset_insert set_mset_mset)
    then show ?thesis
      using ih zs False Cons.prems(4) by auto
  qed
qed

lemma sort_py_str:
  assumes "\<forall>y\<in>set acc \<union> set xs. fst y = JStr (K y)" and "sorted (map K acc)"
  shows "\<exists>res. sort_py acc xs = Inr res \<and> mset res = mset acc + mset xs \<and> sorted (map K res)
           \<and> (\<forall>k. filter (\<lambda>y. K y = k) res = filter (\<lambda>y. K y = k) acc @ filter (\<lambda>y. K y = k) xs)"
  using assms
proof (induction xs arbitrary: acc)
  case Nil
  then show ?case by simp
next
  case (Cons x xs)
  have "\<forall>y\<in>set acc. \<exists>s. fst y = JStr s" "fst x = JStr (K x)"
    using Cons.prems(1) by auto
  then obtain acc' where a: "insert_py x acc = Inr acc'"
    using insert_py_str by blast
  have s: "sorted (map K acc')
     \<and> filter (\<lambda>y. K y = k) acc' = filter (\<lambda>y. K y = k) acc @ (if K x = k then [x] else [])" for k
    using insert_py_sorted [OF a] Cons.prems by simp
  have m: "mset acc' = add_mset x (mset acc)"
    using insert_py_mset [OF a] .
  then have "set acc' = insert x (set acc)"
    by (metis set_mset_add_mset_insert set_mset_mset)
  then have "\<forall>y\<in>set acc' \<union> set xs. fst y = JStr (K y)"
    using Cons.prems(1) by auto
  from Cons.IH [OF this] s obtain res where
    r: "sort_py acc' xs = Inr res" "mset res = mset acc' + mset xs" "sorted (map K res)"
       "\<forall>k. filter (\<lambda>y. K y = k) res = filter (\<lambda>y. K y = k) acc' @ filter (\<lambda>y. K y = k) xs"
    by blast
  show ?case
    using a r m s by auto
qed

text \<open>The keys are paired with their elements, in the order of the elements.\<close>

lemma decorate_Inr:
  "decorate xs = Inr kxs \<Longrightarrow> map snd kxs = xs \<and> (\<forall>p\<in>set kxs. sort_key_of (snd p) = Inr (fst p))"
  by (induction xs arbitrary: kxs) (auto split: sum.splits)

lemma decorate_str:
  "\<forall>r\<in>set xs. has_str_key r \<Longrightarrow> \<exists>kxs. decorate xs = Inr kxs"
  by (induction xs) (auto simp: has_str_key_def split: sum.splits jval.splits)

text \<open>A comparison that returns compares two strings, or two values that are not
  strings, and never \<^verbatim>\<open>None\<close>.\<close>

lemma py_lt_Inr:
  "py_lt a b = Inr c \<Longrightarrow> ((\<exists>s. a = JStr s) \<longleftrightarrow> (\<exists>t. b = JStr t)) \<and> a \<noteq> JNull \<and> b \<noteq> JNull"
  by (cases a; cases b) auto

lemma insert_py_head:
  "insert_py x (y # ys) = Inr zs \<Longrightarrow> \<exists>c. py_lt (fst x) (fst y) = Inr c"
  by (auto split: sum.splits)

lemma sort_py_comparable:
  assumes "sort_py acc xs = Inr res"
    and "2 \<le> length acc \<longrightarrow> Q acc"
    and "2 \<le> length acc + length xs"
    and Q: "\<And>l. Q l = (((\<forall>p\<in>set l. \<exists>s. fst p = JStr s) \<or> (\<forall>p\<in>set l. \<nexists>s. fst p = JStr s))
                          \<and> (\<forall>p\<in>set l. fst p \<noteq> JNull))"
  shows "Q (acc @ xs)"
  using assms(1-3)
proof (induction xs arbitrary: acc)
  case Nil
  then show ?case by simp
next
  case (Cons x xs)
  from Cons.prems(1) obtain acc' where a: "insert_py x acc = Inr acc'" and r: "sort_py acc' xs = Inr res"
    by (auto split: sum.splits)
  have l: "length acc' = Suc (length acc)"
    using insert_py_length [OF a] .
  have set': "set acc' = insert x (set acc)"
    using insert_py_mset [OF a] by (metis set_mset_add_mset_insert set_mset_mset)
  have q: "2 \<le> length acc' \<longrightarrow> Q acc'"
  proof
    assume "2 \<le> length acc'"
    then obtain y ys where acc: "acc = y # ys"
      using l by (cases acc) auto
    from a obtain c where c: "py_lt (fst x) (fst y) = Inr c"
      unfolding acc using insert_py_head by blast
    note xy = py_lt_Inr [OF c]
    show "Q acc'"
    proof (cases ys)
      case Nil
      then show ?thesis using xy set' acc by (auto simp: Q)
    next
      case (Cons z zs)
      then have "Q acc" using Cons.prems(2) acc by simp
      then show ?thesis using xy set' acc by (auto simp: Q)
    qed
  qed
  have "Q (acc' @ xs)"
    using Cons.IH [OF r q] Cons.prems(3) l by simp
  then show ?case
    using set' by (auto simp: Q)
qed

lemma sort_py_Inr_keys:
  assumes "sort_py [] xs = Inr res" and "2 \<le> length xs"
  shows "((\<forall>p\<in>set xs. \<exists>s. fst p = JStr s) \<or> (\<forall>p\<in>set xs. \<nexists>s. fst p = JStr s))
         \<and> (\<forall>p\<in>set xs. fst p \<noteq> JNull)"
  using sort_py_comparable [OF assms(1), where
      Q = "\<lambda>l. ((\<forall>p\<in>set l. \<exists>s. fst p = JStr s) \<or> (\<forall>p\<in>set l. \<nexists>s. fst p = JStr s))
                 \<and> (\<forall>p\<in>set l. fst p \<noteq> JNull)"] assms(2)
  by simp

lemma sorted_replies_str:
  assumes "\<forall>r\<in>set rs. has_str_key r"
  shows "\<exists>ys. sorted_replies (JArr rs) = JArr ys \<and> mset ys = mset rs \<and> sorted (map str_key ys)
           \<and> (\<forall>k. filter (\<lambda>r. str_key r = k) ys = filter (\<lambda>r. str_key r = k) rs)"
proof -
  from assms obtain kxs where d: "decorate rs = Inr kxs"
    using decorate_str by blast
  note dk = decorate_Inr [OF d]
  have key: "fst p = JStr (str_key (snd p))" if "p \<in> set kxs" for p
  proof -
    have "snd p \<in> set rs" using that dk by force
    then have "has_str_key (snd p)" using assms by simp
    moreover have "sort_key_of (snd p) = Inr (fst p)" using that dk by simp
    ultimately show ?thesis
      by (auto simp: has_str_key_def str_key_def split: jval.splits)
  qed
  let ?K = "\<lambda>p. str_key (snd p)"
  have "\<forall>y\<in>set [] \<union> set kxs. fst y = JStr (?K y)"
    using key by simp
  from sort_py_str [OF this] obtain res where
    r: "sort_py [] kxs = Inr res" "mset res = mset kxs" "sorted (map ?K res)"
       "\<forall>k. filter (\<lambda>y. ?K y = k) res = filter (\<lambda>y. ?K y = k) kxs"
    by auto
  have s: "sorted_replies (JArr rs) = JArr (map snd res)"
    using d r(1) by (simp add: sorted_replies_def py_sorted_def)
  have m: "mset (map snd res) = mset rs"
    using r(2) dk by (metis mset_map)
  have o: "sorted (map str_key (map snd res))"
    using r(3) by (simp add: comp_def)
  have f: "filter (\<lambda>r. str_key r = k) (map snd res) = filter (\<lambda>r. str_key r = k) rs" for k
  proof -
    have "filter (\<lambda>r. str_key r = k) (map snd res) = map snd (filter (\<lambda>y. ?K y = k) res)"
      by (simp add: filter_map comp_def)
    also have "\<dots> = map snd (filter (\<lambda>y. ?K y = k) kxs)"
      using r(4) by simp
    also have "\<dots> = filter (\<lambda>r. str_key r = k) (map snd kxs)"
      by (simp add: filter_map comp_def)
    finally show ?thesis using dk by simp
  qed
  show ?thesis using s m o f by blast
qed

lemma sorted_replies_fallback:
  assumes "2 \<le> length rs"
    and "\<not> ((\<forall>r\<in>set rs. has_str_key r) \<or> (\<forall>r\<in>set rs. \<not> has_str_key r))
         \<or> (\<exists>r\<in>set rs. sort_key_of r = Inr JNull)"
  shows "sorted_replies (JArr rs) = JArr rs"
proof (cases "decorate rs")
  case (Inl e)
  then show ?thesis by (simp add: sorted_replies_def py_sorted_def)
next
  case (Inr kxs)
  note dk = decorate_Inr [OF Inr]
  have len: "2 \<le> length kxs"
    using assms(1) dk by (metis length_map)
  have str: "has_str_key (snd p) = (\<exists>s. fst p = JStr s)" if "p \<in> set kxs" for p
    using that dk by (auto simp: has_str_key_def split: jval.splits)
  have rs: "set rs = snd ` set kxs"
    using dk by (metis set_map)
  have "sort_py [] kxs \<noteq> Inr res" for res
  proof
    assume "sort_py [] kxs = Inr res"
    note k = sort_py_Inr_keys [OF this len]
    from k have "(\<forall>r\<in>set rs. has_str_key r) \<or> (\<forall>r\<in>set rs. \<not> has_str_key r)"
      using str rs by auto
    moreover have "\<not> (\<exists>r\<in>set rs. sort_key_of r = Inr JNull)"
    proof
      assume "\<exists>r\<in>set rs. sort_key_of r = Inr JNull"
      then obtain p where "p \<in> set kxs" "sort_key_of (snd p) = Inr JNull"
        using rs by auto
      then have "fst p = JNull" using dk by auto
      then show False using k \<open>p \<in> set kxs\<close> by auto
    qed
    ultimately show False using assms(2) by blast
  qed
  then show ?thesis
    using Inr by (auto simp: sorted_replies_def py_sorted_def split: sum.splits)
qed

text \<open>
  Claim C1, as the code has it.  The replies are ordered by a key that is never parsed:
  the value of the \<^verbatim>\<open>created_at\<close> field if the reply has it, else the value of the
  \<^verbatim>\<open>timestamp\<close> field if it has it, else the empty string.  When every key is a string,
  which includes the replies without a time stamp, the output is the input sorted
  ascending by key, strings being compared by code point, with equal keys in arrival
  order.  The output is the input in arrival order, for the whole sequence, when the
  comparison of keys raises: when some keys are strings and others are not, or when one
  of at least two replies has the key \<^verbatim>\<open>None\<close>.
\<close>

theorem replies_sorted_or_arrival_order:
  "sort_key_of (JObj kvs) = Inr (first_present kvs ''created_at'' ''timestamp'' (JStr []))
   \<and> ((\<forall>r\<in>set rs. has_str_key r) \<longrightarrow>
      (\<exists>ys. sorted_replies (JArr rs) = JArr ys \<and> mset ys = mset rs \<and> sorted (map str_key ys)
            \<and> (\<forall>k. filter (\<lambda>r. str_key r = k) ys = filter (\<lambda>r. str_key r = k) rs)))
   \<and> ((\<exists>r\<in>set rs. has_str_key r) \<and> (\<exists>r\<in>set rs. \<not> has_str_key r) \<longrightarrow>
        sorted_replies (JArr rs) = JArr rs)
   \<and> (2 \<le> length rs \<and> (\<exists>r\<in>set rs. sort_key_of r = Inr JNull) \<longrightarrow>
        sorted_replies (JArr rs) = JArr rs)"
proof (intro conjI impI)
  show "sort_key_of (JObj kvs) = Inr (first_present kvs ''created_at'' ''timestamp'' (JStr []))"
    by (simp add: sort_key_of_def first_present_def split: option.splits)
next
  assume "\<forall>r\<in>set rs. has_str_key r"
  then show "\<exists>ys. sorted_replies (JArr rs) = JArr ys \<and> mset ys = mset rs \<and> sorted (map str_key ys)
            \<and> (\<forall>k. filter (\<lambda>r. str_key r = k) ys = filter (\<lambda>r. str_key r = k) rs)"
    by (rule sorted_replies_str)
next
  assume a: "(\<exists>r\<in>set rs. has_str_key r) \<and> (\<exists>r\<in>set rs. \<not> has_str_key r)"
  then obtain r r' where "r \<in> set rs" "r' \<in> set rs" "has_str_key r" "\<not> has_str_key r'"
    by blast
  then have "r \<noteq> r'" by auto
  with \<open>r \<in> set rs\<close> \<open>r' \<in> set rs\<close> have "2 \<le> length rs"
    by (cases rs; cases "tl rs") auto
  then show "sorted_replies (JArr rs) = JArr rs"
    using a by (intro sorted_replies_fallback) auto
next
  assume "2 \<le> length rs \<and> (\<exists>r\<in>set rs. sort_key_of r = Inr JNull)"
  then show "sorted_replies (JArr rs) = JArr rs"
    by (intro sorted_replies_fallback) auto
qed

text \<open>The two replies of the first case have both fields, and the two fields order them
  differently: the order that comes out is that of \<^verbatim>\<open>created_at\<close>.\<close>

theorem replies_sorted_or_arrival_order_witness:
  "sort_key_of (JObj [(''timestamp'', JStr ''2025-01-01T09:00''),
                      (''created_at'', JStr ''2025-01-04T10:00'')])
     = Inr (JStr ''2025-01-04T10:00'')
   \<and> sort_key_of (JObj [(''timestamp'', JStr ''2025-01-03T09:00'')])
     = Inr (JStr ''2025-01-03T09:00'')
   \<and> sort_key_of (JObj [(''text'', JStr ''hello'')]) = Inr (JStr [])
   \<and> has_str_key (JObj [(''timestamp'', JStr ''2025-01-01T09:00''),
                        (''created_at'', JStr ''2025-01-04T10:00'')])
   \<and> has_str_key (JObj [(''created_at'', JStr ''2025-01-02T10:00''),
                        (''timestamp'', JStr ''2025-01-05T09:00'')])
   \<and> sorted_replies (JArr [JObj [(''timestamp'', JStr ''2025-01-01T09:00''),
                                 (''created_at'', JStr ''2025-01-04T10:00'')],
                           JObj [(''created_at'', JStr ''2025-01-02T10:00''),
                                 (''timestamp'', JStr ''2025-01-05T09:00'')]])
       = JArr [JObj [(''created_at'', JStr ''2025-01-02T10:00''),
                     (''timestamp'', JStr ''2025-01-05T09:00'')],
               JObj [(''timestamp'', JStr ''2025-01-01T09:00''),
                     (''created_at'', JStr ''2025-01-04T10:00'')]]
   \<and> sorted (map str_key [JObj [(''created_at'', JStr ''2025-01-02T10:00''),
                                 (''timestamp'', JStr ''2025-01-05T09:00'')],
                           JObj [(''timestamp'', JStr ''2025-01-01T09:00''),
                                 (''created_at'', JStr ''2025-01-04T10:00'')]])
   \<and> \<not> has_str_key (JObj [(''created_at'', JInt 1735812000)])
   \<and> sorted_replies (JArr [JObj [(''timestamp'', JStr ''2025-01-01T09:00''),
                                 (''created_at'', JStr ''2025-01-04T10:00'')],
                           JObj [(''created_at'', JInt 1735812000)]])
       = JArr [JObj [(''timestamp'', JStr ''2025-01-01T09:00''),
                     (''created_at'', JStr ''2025-01-04T10:00'')],
               JObj [(''created_at'', JInt 1735812000)]]
   \<and> 2 \<le> length [JObj [(''created_at'', JInt 5)], JObj [(''created_at'', JNull)]]
   \<and> sort_key_of (JObj [(''created_at'', JNull)]) = Inr JNull
   \<and> sorted_replies (JArr [JObj [(''created_at'', JInt 5)], JObj [(''created_at'', JNull)]])
       = JArr [JObj [(''created_at'', JInt 5)], JObj [(''created_at'', JNull)]]"
proof -
  let ?a = "JObj [(''timestamp'', JStr ''2025-01-01T09:00''), (''created_at'', JStr ''2025-01-04T10:00'')]"
  let ?b = "JObj [(''created_at'', JStr ''2025-01-02T10:00''), (''timestamp'', JStr ''2025-01-05T09:00'')]"
  let ?c = "JObj [(''created_at'', JInt 1735812000)]"
  let ?d = "JObj [(''created_at'', JInt 5)]"
  let ?n = "JObj [(''created_at'', JNull)]"
  have k1: "sort_key_of ?a = Inr (JStr ''2025-01-04T10:00'')"
    using replies_sorted_or_arrival_order
            [of "[(''timestamp'', JStr ''2025-01-01T09:00''), (''created_at'', JStr ''2025-01-04T10:00'')]",
             THEN conjunct1]
    by (simp add: first_present_def)
  have k2: "sort_key_of (JObj [(''timestamp'', JStr ''2025-01-03T09:00'')])
              = Inr (JStr ''2025-01-03T09:00'')"
    using replies_sorted_or_arrival_order
            [of "[(''timestamp'', JStr ''2025-01-03T09:00'')]", THEN conjunct1]
    by (simp add: first_present_def)
  have k3: "sort_key_of (JObj [(''text'', JStr ''hello'')]) = Inr (JStr [])"
    using replies_sorted_or_arrival_order [of "[(''text'', JStr ''hello'')]", THEN conjunct1]
    by (simp add: first_present_def)
  have ka: "has_str_key ?a" and kb: "has_str_key ?b" and kc: "\<not> has_str_key ?c"
    by (simp_all add: has_str_key_def sort_key_of_def)
  have kn: "sort_key_of ?n = Inr JNull"
    by (simp add: sort_key_of_def)
  have h1: "\<forall>r\<in>set [?a, ?b]. has_str_key r"
    using ka kb by simp
  have ev: "sorted_replies (JArr [?a, ?b]) = JArr [?b, ?a]"
    by (simp add: sorted_replies_def py_sorted_def sort_key_of_def)
  from replies_sorted_or_arrival_order
         [of _ "[?a, ?b]", THEN conjunct2, THEN conjunct1, THEN mp, OF h1]
  obtain ys where ys: "sorted_replies (JArr [?a, ?b]) = JArr ys" "sorted (map str_key ys)"
    by blast
  from ys(1) ev have "ys = [?b, ?a]"
    by simp
  with ys(2) have first: "sorted (map str_key [?b, ?a])"
    by simp
  have h2: "(\<exists>r\<in>set [?a, ?c]. has_str_key r) \<and> (\<exists>r\<in>set [?a, ?c]. \<not> has_str_key r)"
    using ka kc by simp
  have second: "sorted_replies (JArr [?a, ?c]) = JArr [?a, ?c]"
    using replies_sorted_or_arrival_order
            [of _ "[?a, ?c]", THEN conjunct2, THEN conjunct2, THEN conjunct1, THEN mp, OF h2] .
  have h3: "2 \<le> length [?d, ?n] \<and> (\<exists>r\<in>set [?d, ?n]. sort_key_of r = Inr JNull)"
    using kn by simp
  have third: "sorted_replies (JArr [?d, ?n]) = JArr [?d, ?n]"
    using replies_sorted_or_arrival_order
            [of _ "[?d, ?n]", THEN conjunct2, THEN conjunct2, THEN conjunct2, THEN mp, OF h3] .
  show ?thesis
    using k1 k2 k3 ka kb ev first kc second kn third by simp
qed

text \<open>
  Claim C1 as stated fails: the second reply below has neither \<^verbatim>\<open>created_at\<close> nor
  \<^verbatim>\<open>timestamp\<close>, yet the output is not the arrival order: the reply without a time stamp
  is moved to the front.
\<close>

theorem missing_timestamp_counterexample:
  "map_of [(''text'', JStr ''hello'')] ''created_at'' = None
   \<and> map_of [(''text'', JStr ''hello'')] ''timestamp'' = None
   \<and> sorted_replies (JArr [JObj [(''created_at'', JStr ''2025-01-02T10:00'')],
                           JObj [(''text'', JStr ''hello'')]])
       = JArr [JObj [(''text'', JStr ''hello'')],
               JObj [(''created_at'', JStr ''2025-01-02T10:00'')]]
   \<and> sorted_replies (JArr [JObj [(''created_at'', JStr ''2025-01-02T10:00'')],
                           JObj [(''text'', JStr ''hello'')]])
       \<noteq> JArr [JObj [(''created_at'', JStr ''2025-01-02T10:00'')],
               JObj [(''text'', JStr ''hello'')]]"
  by (simp add: sorted_replies_def py_sorted_def sort_key_of_def)

subsection \<open>The creation workflow\<close>

lemma calls_append [simp]: "calls (xs @ ys) = calls xs @ calls ys"
  by (induction xs) (auto simp: calls_def split: option.splits)

lemma calls_simps [simp]:
  "calls [] = []"
  "calls (Call r # evs) = r # calls evs"
  "calls (StError t # evs) = calls evs"
  "calls (StSuccess t # evs) = calls evs"
  "calls (StInfo t # evs) = calls evs"
  "calls (StBalloons # evs) = calls evs"
  by (simp_all add: calls_def)

text \<open>Each helper sends exactly one request and leaves the page before it as it is.\<close>

lemma create_ticket_log:
  "\<exists>evs. snd (create_ticket srv d log) = log @ Call (PostTickets d) # evs \<and> calls evs = []"
  by (auto simp: create_ticket_def send_def split: outcome.splits sum.splits)

lemma upload_file_log:
  "\<exists>evs. snd (upload_file_via_api srv c n t log) = log @ Call (PostAttachment t n c) # evs
         \<and> calls evs = []"
  by (auto simp: upload_file_via_api_def send_def split: outcome.splits sum.splits)

lemma generate_ai_reply_log:
  "\<exists>evs. snd (generate_ai_reply srv t m JNull JNull log) = log @ Call (PostAiReply t m None) # evs
         \<and> calls evs = []"
  by (auto simp: generate_ai_reply_def send_def split: outcome.splits sum.splits)

lemma send_email_log:
  "\<exists>evs. snd (send_email_via_api srv t a b c log) = log @ Call (PostSendEmail t a b c) # evs
         \<and> calls evs = []"
  by (auto simp: send_email_via_api_def send_def split: outcome.splits)

lemma upload_files_log:
  "\<exists>evs. upload_files srv t fs log = log @ evs
         \<and> calls evs = map (\<lambda>f. PostAttachment t (name f) (getvalue f)) fs"
proof (induction fs arbitrary: log)
  case Nil
  then show ?case by simp
next
  case (Cons f fs)
  obtain v log' where u: "upload_file_via_api srv (getvalue f) (name f) t log = (v, log')"
    by (cases "upload_file_via_api srv (getvalue f) (name f) t log")
  from upload_file_log [of srv "getvalue f" "name f" t log] u
  obtain evs where e: "log' = log @ Call (PostAttachment t (name f) (getvalue f)) # evs" "calls evs = []"
    by auto
  let ?log'' = "if py_truthy v
     then log' @ [StInfo [Lit (''File '' @ [CHR 0x27]), Lit (name f),
                          Lit (CHR 0x27 # '' uploaded successfully!'')]]
     else log'"
  from Cons.IH [of ?log''] obtain evs' where
    r: "upload_files srv t fs ?log'' = ?log'' @ evs'"
       "calls evs' = map (\<lambda>f. PostAttachment t (name f) (getvalue f)) fs"
    by blast
  have "upload_files srv t (f # fs) log = upload_files srv t fs ?log''"
    using u by simp
  then show ?case
    using r e by (cases "py_truthy v") auto
qed

text \<open>
  Claim C2.  The form is submitted with its required fields filled in.  When
  \<^const>\<open>create_ticket\<close> returns no ticket (a falsy value), the page function ends there:
  the only request of the run is the one that creates the ticket, so no upload, no AI
  reply and no email is attempted.  When it returns a ticket with an \<^verbatim>\<open>id\<close>, then
  whatever the backend answers to the later requests, and so also when uploads fail,
  the run sends the upload of every file in order, then the request for the AI reply,
  then the email if an address was given; it ends without an exception and the page
  reports the ticket as created.
\<close>

theorem creation_workflow:
  assumes "submit form"
    and "title form \<noteq> [] \<and> category form \<noteq> [] \<and> description form \<noteq> [] \<and> created_by form \<noteq> []"
    and "create_ticket srv (ticket_data_of form) log = (new_ticket, log1)"
  shows "(\<not> py_truthy new_ticket \<longrightarrow>
            create_ticket_page srv form log = (None, log1)
            \<and> calls log1 = calls log @ [PostTickets (ticket_data_of form)])
       \<and> (py_truthy new_ticket \<and> py_item new_ticket ''id'' = Inr ticket_id \<longrightarrow>
            fst (create_ticket_page srv form log) = None
            \<and> calls (snd (create_ticket_page srv form log))
                = calls log @ workflow_calls form ticket_id
            \<and> StSuccess [Lit ''Ticket #'', Fmt ticket_id, Lit '' created successfully!'']
                \<in> set (snd (create_ticket_page srv form log)))"
proof (intro conjI impI)
  from create_ticket_log [of srv "ticket_data_of form" log] assms(3)
  obtain evs where l1: "log1 = log @ Call (PostTickets (ticket_data_of form)) # evs" "calls evs = []"
    by auto
  then have c1: "calls log1 = calls log @ [PostTickets (ticket_data_of form)]"
    by simp
  {
    assume "\<not> py_truthy new_ticket"
    then show "create_ticket_page srv form log = (None, log1)"
      using assms by (simp add: create_ticket_page_def)
    show "calls log1 = calls log @ [PostTickets (ticket_data_of form)]"
      by (rule c1)
  }
  assume ok: "py_truthy new_ticket \<and> py_item new_ticket ''id'' = Inr ticket_id"
  let ?created = "StSuccess [Lit ''Ticket #'', Fmt ticket_id, Lit '' created successfully!'']"
  let ?log2 = "log1 @ [?created]"
  let ?log3 = "upload_files srv ticket_id (uploaded_files form) ?log2"
  obtain ai_response log4 where
    ai: "generate_ai_reply srv ticket_id (ai_message form) JNull JNull ?log3 = (ai_response, log4)"
    by (cases "generate_ai_reply srv ticket_id (ai_message form) JNull JNull ?log3")
  let ?log5 = "(if py_truthy ai_response
                then log4 @ [StInfo [Lit ''AI assistant has reviewed your ticket!'']]
                else log4) @ [StBalloons]"
  obtain sent log6 where
    em: "send_email_via_api srv ticket_id (email form) (email_subject ticket_id)
           (email_message form ticket_id) ?log5 = (sent, log6)"
    by (cases "send_email_via_api srv ticket_id (email form) (email_subject ticket_id)
                 (email_message form ticket_id) ?log5")
  let ?final = "if email form \<noteq> []
                then (if sent then log6 @ [StInfo [Lit ''Confirmation email sent!'']] else log6)
                else ?log5"
  have page: "create_ticket_page srv form log = (None, ?final)"
    using assms ok ai em by (simp add: create_ticket_page_def Let_def)
  from upload_files_log [of srv ticket_id "uploaded_files form" ?log2]
  obtain ups where l3: "?log3 = ?log2 @ ups"
      "calls ups = map (\<lambda>f. PostAttachment ticket_id (name f) (getvalue f)) (uploaded_files form)"
    by blast
  from generate_ai_reply_log [of srv ticket_id "ai_message form" ?log3] ai
  obtain es4 where l4: "log4 = ?log3 @ Call (PostAiReply ticket_id (ai_message form) None) # es4"
      "calls es4 = []"
    by auto
  from send_email_log [of srv ticket_id "email form" "email_subject ticket_id"
                          "email_message form ticket_id" ?log5] em
  obtain es6 where l6: "log6 = ?log5 @ Call (PostSendEmail ticket_id (email form)
        (email_subject ticket_id) (email_message form ticket_id)) # es6" "calls es6 = []"
    by auto
  have c5: "calls ?log5 = calls log1 @ calls ups @ [PostAiReply ticket_id (ai_message form) None]"
    using l3(1) l4 by simp
  have m5: "?created \<in> set ?log5"
    using l3(1) l4(1) by simp
  show "fst (create_ticket_page srv form log) = None"
    using page by simp
  show "calls (snd (create_ticket_page srv form log)) = calls log @ workflow_calls form ticket_id"
    using page c5 c1 l3(2) l6 by (simp add: workflow_calls_def)
  show "?created \<in> set (snd (create_ticket_page srv form log))"
    using page m5 l6(1) by simp
qed

theorem creation_workflow_witness:
  "submit demo_form
   \<and> title demo_form \<noteq> [] \<and> category demo_form \<noteq> [] \<and> description demo_form \<noteq> []
   \<and> created_by demo_form \<noteq> []
   \<and> create_ticket demo_backend (ticket_data_of demo_form) []
       = (JObj [(''id'', JInt 7)], [Call (PostTickets (ticket_data_of demo_form))])
   \<and> py_truthy (JObj [(''id'', JInt 7)])
   \<and> py_item (JObj [(''id'', JInt 7)]) ''id'' = Inr (JInt 7)
   \<and> fst (create_ticket_page demo_backend demo_form []) = None
   \<and> calls (snd (create_ticket_page demo_backend demo_form []))
       = [PostTickets (ticket_data_of demo_form),
          PostAttachment (JInt 7) ''a.txt'' ''x'',
          PostAttachment (JInt 7) ''b.png'' ''y'',
          PostAiReply (JInt 7) (ai_message demo_form) None,
          PostSendEmail (JInt 7) ''ann@example.org'' (email_subject (JInt 7))
            (email_message demo_form (JInt 7))]
   \<and> create_ticket down_backend (ticket_data_of demo_form) []
       = (JNull, [Call (PostTickets (ticket_data_of demo_form)),
                  StError [Lit ''Error creating ticket: '', Lit ''connection refused'']])
   \<and> \<not> py_truthy JNull
   \<and> create_ticket_page down_backend demo_form []
       = (None, [Call (PostTickets (ticket_data_of demo_form)),
                 StError [Lit ''Error creating ticket: '', Lit ''connection refused'']])"
proof -
  have s: "submit demo_form"
    by (simp add: demo_form_def)
  have v: "title demo_form \<noteq> [] \<and> category demo_form \<noteq> [] \<and> description demo_form \<noteq> []
           \<and> created_by demo_form \<noteq> []"
    by (simp add: demo_form_def)
  have c: "create_ticket demo_backend (ticket_data_of demo_form) []
       = (JObj [(''id'', JInt 7)], [Call (PostTickets (ticket_data_of demo_form))])"
    by (simp add: create_ticket_def send_def demo_backend_def)
  have t: "py_truthy (JObj [(''id'', JInt 7)]) \<and> py_item (JObj [(''id'', JInt 7)]) ''id'' = Inr (JInt 7)"
    by simp
  have d: "create_ticket down_backend (ticket_data_of demo_form) []
       = (JNull, [Call (PostTickets (ticket_data_of demo_form)),
                  StError [Lit ''Error creating ticket: '', Lit ''connection refused'']])"
    by (simp add: create_ticket_def send_def down_backend_def)
  have n: "\<not> py_truthy JNull"
    by simp
  have w: "workflow_calls demo_form (JInt 7)
       = [PostTickets (ticket_data_of demo_form),
          PostAttachment (JInt 7) ''a.txt'' ''x'',
          PostAttachment (JInt 7) ''b.png'' ''y'',
          PostAiReply (JInt 7) (ai_message demo_form) None,
          PostSendEmail (JInt 7) ''ann@example.org'' (email_subject (JInt 7))
            (email_message demo_form (JInt 7))]"
    by (simp add: workflow_calls_def demo_form_def)
  note ok = creation_workflow [OF s v c, THEN conjunct2, THEN mp, OF t]
  note down = creation_workflow [OF s v d, THEN conjunct1, THEN mp, OF n]
  show ?thesis
    using s v c t d n ok down w by simp
qed

subsection \<open>What the API helpers return\<close>

lemma get_all_tickets_scheme:
  "follows_scheme (\<lambda>c. c = 200) Inr (JArr []) ''Failed to fetch tickets: ''
     ''Error connecting to API: '' GetTickets (srv (calls log) GetTickets) log
     (get_all_tickets srv log)"
  by (simp add: follows_scheme_def get_all_tickets_def send_def split: outcome.splits sum.splits)

lemma create_ticket_scheme:
  "follows_scheme (\<lambda>c. c = 200 \<or> c = 201) Inr JNull ''Failed to create ticket: ''
     ''Error creating ticket: '' (PostTickets d) (srv (calls log) (PostTickets d)) log
     (create_ticket srv d log)"
  by (simp add: follows_scheme_def create_ticket_def send_def split: outcome.splits sum.splits)

lemma get_ticket_by_id_scheme:
  "follows_scheme (\<lambda>c. c = 200) Inr JNull ''Failed to fetch ticket: ''
     ''Error fetching ticket: '' (GetTicket t) (srv (calls log) (GetTicket t)) log
     (get_ticket_by_id srv t log)"
  by (simp add: follows_scheme_def get_ticket_by_id_def send_def split: outcome.splits sum.splits)

lemma upload_file_scheme:
  "follows_scheme (\<lambda>c. c = 200) uploaded_url JNull ''Failed to upload file: ''
     ''Error uploading file: '' (PostAttachment t n c) (srv (calls log) (PostAttachment t n c)) log
     (upload_file_via_api srv c n t log)"
  by (simp add: follows_scheme_def upload_file_via_api_def send_def split: outcome.splits sum.splits)

lemma generate_ai_reply_scheme:
  "follows_scheme (\<lambda>c. c = 200) Inr JNull ''Failed to generate AI reply: ''
     ''Error generating AI reply: ''
     (PostAiReply t m (if py_truthy i then Some (i, f) else None))
     (srv (calls log) (PostAiReply t m (if py_truthy i then Some (i, f) else None))) log
     (generate_ai_reply srv t m i f log)"
  by (simp add: follows_scheme_def generate_ai_reply_def send_def split: outcome.splits sum.splits)

lemma add_reply_scheme:
  "follows_scheme (\<lambda>c. c = 200) Inr JNull ''Failed to add reply: ''
     ''Error adding reply: '' (PostReplies t d) (srv (calls log) (PostReplies t d)) log
     (add_reply_via_api srv t d log)"
  by (simp add: follows_scheme_def add_reply_via_api_def send_def split: outcome.splits sum.splits)

lemma bool_helpers_scheme:
  "follows_bool_scheme ''Error updating ticket status: '' (PatchStatus t s)
     (srv (calls log) (PatchStatus t s)) log (update_ticket_status srv t s log)"
  "follows_bool_scheme ''Error sending email: '' (PostSendEmail t a b c)
     (srv (calls log) (PostSendEmail t a b c)) log (send_email_via_api srv t a b c log)"
  by (simp_all add: follows_bool_scheme_def update_ticket_status_def send_email_via_api_def send_def
        split: outcome.splits)

lemma uploaded_url_obj:
  "uploaded_url (JObj kvs) = Inr (first_truthy kvs ''signed_url'' ''attachment_url'' JNull)"
  by (simp add: uploaded_url_def first_truthy_def Let_def split: option.splits)

text \<open>
  Claim C4, as the code has it.  For each of the eight operations, a response with a
  recognised status code (200, and also 201 for create) whose body decodes yields the
  decoded payload for fetch-all, fetch-by-id, create, AI-reply and post-reply, the URL
  taken from the payload for post-attachment, and the truth value \<^verbatim>\<open>True\<close> for
  update-status and send-email.  Any other status code and any exception yields no
  typed failure value but a bare sentinel: the empty list for fetch-all, \<^verbatim>\<open>None\<close> for
  fetch-by-id, create, post-attachment, AI-reply and post-reply, \<^verbatim>\<open>False\<close> for
  update-status and send-email.  The cause is written to the page instead: the status
  code for the first six operations, the text of the exception for all eight;
  update-status and send-email write nothing for a status code other than 200.
\<close>

theorem helpers_follow_scheme:
  "follows_scheme (\<lambda>c. c = 200) Inr (JArr []) ''Failed to fetch tickets: ''
     ''Error connecting to API: '' GetTickets (srv (calls log) GetTickets) log
     (get_all_tickets srv log)
   \<and> follows_scheme (\<lambda>c. c = 200) Inr JNull ''Failed to fetch ticket: ''
     ''Error fetching ticket: '' (GetTicket ticket_id) (srv (calls log) (GetTicket ticket_id)) log
     (get_ticket_by_id srv ticket_id log)
   \<and> follows_scheme (\<lambda>c. c = 200 \<or> c = 201) Inr JNull ''Failed to create ticket: ''
     ''Error creating ticket: '' (PostTickets ticket_data) (srv (calls log) (PostTickets ticket_data)) log
     (create_ticket srv ticket_data log)
   \<and> follows_scheme (\<lambda>c. c = 200) Inr JNull ''Failed to add reply: ''
     ''Error adding reply: '' (PostReplies ticket_id reply_data)
     (srv (calls log) (PostReplies ticket_id reply_data)) log
     (add_reply_via_api srv ticket_id reply_data log)
   \<and> follows_scheme (\<lambda>c. c = 200) Inr JNull ''Failed to generate AI reply: ''
     ''Error generating AI reply: ''
     (PostAiReply ticket_id message (if py_truthy image_base64 then Some (image_base64, image_filename) else None))
     (srv (calls log)
        (PostAiReply ticket_id message (if py_truthy image_base64 then Some (image_base64, image_filename) else None)))
     log (generate_ai_reply srv ticket_id message image_base64 image_filename log)
   \<and> follows_scheme (\<lambda>c. c = 200) uploaded_url JNull ''Failed to upload file: ''
     ''Error uploading file: '' (PostAttachment ticket_id filename file_content)
     (srv (calls log) (PostAttachment ticket_id filename file_content)) log
     (upload_file_via_api srv file_content filename ticket_id log)
   \<and> uploaded_url (JObj kvs) = Inr (first_truthy kvs ''signed_url'' ''attachment_url'' JNull)
   \<and> follows_bool_scheme ''Error updating ticket status: '' (PatchStatus ticket_id status)
     (srv (calls log) (PatchStatus ticket_id status)) log
     (update_ticket_status srv ticket_id status log)
   \<and> follows_bool_scheme ''Error sending email: '' (PostSendEmail ticket_id to_email subject message')
     (srv (calls log) (PostSendEmail ticket_id to_email subject message')) log
     (send_email_via_api srv ticket_id to_email subject message' log)"
  by (intro conjI get_all_tickets_scheme get_ticket_by_id_scheme create_ticket_scheme
        add_reply_scheme generate_ai_reply_scheme upload_file_scheme uploaded_url_obj
        bool_helpers_scheme)

text \<open>
  Claim C4 as stated fails: what fetch-by-id returns for a 404, for a 500 and for a
  refused connection is the same \<^verbatim>\<open>None\<close>, which carries neither a cause nor a status
  code; update-status answered with a 500 returns \<^verbatim>\<open>False\<close> and writes nothing at all.
\<close>

theorem failure_value_counterexample:
  "fst (get_ticket_by_id (\<lambda>h r. Response 404 (Inr (JObj [(''detail'', JStr ''Not found'')]))) (JInt 7) []) = JNull
   \<and> fst (get_ticket_by_id (\<lambda>h r. Response 500 (Inl ''no JSON'')) (JInt 7) []) = JNull
   \<and> fst (get_ticket_by_id (\<lambda>h r. Raised ''connection refused'') (JInt 7) []) = JNull
   \<and> update_ticket_status (\<lambda>h r. Response 500 (Inl ''no JSON'')) (JInt 7) (JStr ''Closed'') []
       = (False, [Call (PatchStatus (JInt 7) (JStr ''Closed''))])"
  by (simp add: get_ticket_by_id_def update_ticket_status_def send_def)

end
